theory Spec2Isabelle
  imports Complex_Main "HOL-Library.Sublist" "HOL-Library.AList"
begin

section \<open>JavaScript values as the front end handles them\<close>

text \<open>
  The components take whatever \<^verbatim>\<open>JSON.parse\<close> or \<^verbatim>\<open>res.json()\<close> hands them (every
  payload is typed \<^verbatim>\<open>any\<close>), so a value is any decoded JSON value, or \<^verbatim>\<open>undefined\<close>
  (what reading an absent property gives). An object is the list of its own properties,
  each key once; a number is the real number the double stands for.
\<close>

datatype jsval =
    JUndefined
  | JNull
  | JBool bool
  | JNum real
  | JStr string
  | JArr "jsval list"
  | JObj "(string \<times> jsval) list"

text \<open>Truthiness: what \<^verbatim>\<open>||\<close>, \<^verbatim>\<open>!\<close> and \<^verbatim>\<open>? :\<close> test.\<close>

fun truthy :: "jsval \<Rightarrow> bool" where
  "truthy JUndefined = False"
| "truthy JNull = False"
| "truthy (JBool b) = b"
| "truthy (JNum n) = (n \<noteq> 0)"
| "truthy (JStr s) = (s \<noteq> [])"
| "truthy (JArr xs) = True"
| "truthy (JObj kvs) = True"

definition js_or :: "jsval \<Rightarrow> jsval \<Rightarrow> jsval" where
  "js_or a b = (if truthy a then a else b)"

text \<open>\<^verbatim>\<open>a ?? b\<close>: only \<^verbatim>\<open>null\<close> and \<^verbatim>\<open>undefined\<close> give way.\<close>

definition nullish :: "jsval \<Rightarrow> bool" where
  "nullish v = (v = JUndefined \<or> v = JNull)"

definition js_coalesce :: "jsval \<Rightarrow> jsval \<Rightarrow> jsval" where
  "js_coalesce a b = (if nullish a then b else a)"

text \<open>
  \<^verbatim>\<open>v?.k\<close> for the property names the components read (\<^verbatim>\<open>results\<close>, \<^verbatim>\<open>props\<close>,
  \<^verbatim>\<open>id\<close>, \<^verbatim>\<open>name\<close>, \<^verbatim>\<open>title\<close>, \<^verbatim>\<open>labels\<close>, \<^verbatim>\<open>items\<close>, the row fields,
  \<^verbatim>\<open>VITE_API_BASE\<close>): an object gives its own property, everything else
  \<^verbatim>\<open>undefined\<close>, since no prototype carries one of these names.
\<close>

fun opt_prop :: "jsval \<Rightarrow> string \<Rightarrow> jsval" where
  "opt_prop (JObj kvs) k = (case map_of kvs k of None \<Rightarrow> JUndefined | Some v \<Rightarrow> v)"
| "opt_prop v k = JUndefined"

text \<open>A thrown \<^verbatim>\<open>Error\<close>: its \<^verbatim>\<open>name\<close> and its \<^verbatim>\<open>message\<close>.\<close>

datatype js_error = JsError (err_name: string) (message: string)

text \<open>\<^verbatim>\<open>v.k\<close> without the \<^verbatim>\<open>?\<close>: reading a property of \<^verbatim>\<open>null\<close> or \<^verbatim>\<open>undefined\<close> throws.\<close>

definition read_prop_error :: js_error where
  "read_prop_error = JsError ''TypeError'' ''Cannot read properties of null or undefined''"

definition get_prop :: "jsval \<Rightarrow> string \<Rightarrow> js_error + jsval" where
  "get_prop v k = (if nullish v then Inl read_prop_error else Inr (opt_prop v k))"

section \<open>Live event stream components\<close>

text \<open>
  Each widget holds a list in component state and, on every message, puts the new entry
  in front and keeps a prefix: \<^verbatim>\<open>setX(prev => [entry, ...prev].slice(0, W))\<close>.
  \<^verbatim>\<open>JSON.parse\<close> is a parameter \<open>parse\<close> (\<open>None\<close> where it throws), and so is the
  string conversion \<open>str\<close> a template literal applies to a value (it throws for an
  object that cannot be converted to a primitive).
\<close>

type_synonym json_parse = "string \<Rightarrow> jsval option"

text \<open>StreamTicker.tsx, the \<^verbatim>\<open>message\<close> listener: window 50, entries are values.\<close>

definition StreamTicker_entry :: "json_parse \<Rightarrow> string \<Rightarrow> jsval" where
  "StreamTicker_entry parse d =
     (case parse d of Some v \<Rightarrow> v | None \<Rightarrow> JObj [(''raw'', JStr d)])"

definition StreamTicker_onmessage :: "json_parse \<Rightarrow> jsval list \<Rightarrow> string \<Rightarrow> jsval list" where
  "StreamTicker_onmessage parse prev d = take 50 (StreamTicker_entry parse d # prev)"

text \<open>
  EventTicker.tsx, \<^verbatim>\<open>ws.onmessage\<close>: window 12, entries are strings. A payload that does
  not parse is kept as it is. For one that parses, the handler passes React the updater
  \<^verbatim>\<open>m => [`${asObj.topic} @ ${asObj.ts}`, ...m].slice(0, 12)\<close>; the template is evaluated
  when React applies the updater, after the handler's \<^verbatim>\<open>try\<close> block has been left. So
  for a payload that parses to \<^verbatim>\<open>null\<close> reading \<^verbatim>\<open>asObj.topic\<close> throws while the
  component is rendered, where no \<^verbatim>\<open>catch\<close> of the handler applies: the update fails
  (\<open>Inl\<close>) and the component does not live on.
\<close>

definition EventTicker_entry ::
  "json_parse \<Rightarrow> (jsval \<Rightarrow> js_error + string) \<Rightarrow> string \<Rightarrow> js_error + string" where
  "EventTicker_entry parse str d =
     (case parse d of
        None \<Rightarrow> Inr d
      | Some asObj \<Rightarrow>
          (case get_prop asObj ''topic'' of
             Inl e \<Rightarrow> Inl e
           | Inr topic \<Rightarrow>
               (case str topic of
                  Inl e \<Rightarrow> Inl e
                | Inr a \<Rightarrow>
                    (case str (opt_prop asObj ''ts'') of
                       Inl e \<Rightarrow> Inl e
                     | Inr b \<Rightarrow> Inr (a @ '' @ '' @ b)))))"

definition EventTicker_onmessage ::
  "json_parse \<Rightarrow> (jsval \<Rightarrow> js_error + string) \<Rightarrow> string list \<Rightarrow> string
     \<Rightarrow> js_error + string list" where
  "EventTicker_onmessage parse str m d =
     (case EventTicker_entry parse str d of
        Inl e \<Rightarrow> Inl e
      | Inr x \<Rightarrow> Inr (take 12 (x # m)))"

text \<open>NotificationCenter (part_003), \<^verbatim>\<open>ws.onmessage\<close>: window 5, the raw payload.\<close>

definition NotificationCenter_onmessage :: "string list \<Rightarrow> string \<Rightarrow> string list" where
  "NotificationCenter_onmessage prev d = take 5 (d # prev)"

text \<open>
  The state after a sequence of messages, oldest first, from the initial state
  \<^verbatim>\<open>useState([])\<close>: functional updates are applied in arrival order.
\<close>

definition StreamTicker_after :: "json_parse \<Rightarrow> string list \<Rightarrow> jsval list" where
  "StreamTicker_after parse ds = foldl (StreamTicker_onmessage parse) [] ds"

fun EventTicker_feed ::
  "json_parse \<Rightarrow> (jsval \<Rightarrow> js_error + string) \<Rightarrow> string list \<Rightarrow> string list
     \<Rightarrow> js_error + string list" where
  "EventTicker_feed parse str m [] = Inr m"
| "EventTicker_feed parse str m (d # ds) =
     (case EventTicker_onmessage parse str m d of
        Inl e \<Rightarrow> Inl e
      | Inr m' \<Rightarrow> EventTicker_feed parse str m' ds)"

definition EventTicker_after ::
  "json_parse \<Rightarrow> (jsval \<Rightarrow> js_error + string) \<Rightarrow> string list \<Rightarrow> js_error + string list" where
  "EventTicker_after parse str ds = EventTicker_feed parse str [] ds"

definition NotificationCenter_after :: "string list \<Rightarrow> string list" where
  "NotificationCenter_after ds = foldl NotificationCenter_onmessage [] ds"

text \<open>The line the compact ticker shows for a payload whose update does not throw.\<close>

definition EventTicker_line ::
  "json_parse \<Rightarrow> (jsval \<Rightarrow> js_error + string) \<Rightarrow> string \<Rightarrow> string" where
  "EventTicker_line parse str d =
     (case EventTicker_entry parse str d of Inr x \<Rightarrow> x | Inl e \<Rightarrow> [])"

section \<open>HTTP as the client sees it\<close>

text \<open>
  What \<^verbatim>\<open>await fetch(...)\<close> gives: the promise rejects (network unreachable), or it
  resolves to a response. Of a response the client reads \<^verbatim>\<open>status\<close>, \<^verbatim>\<open>statusText\<close>,
  \<^verbatim>\<open>ok\<close> (status 200 to 299), \<^verbatim>\<open>json()\<close> (the decoded body, or the error it throws
  when the body is not JSON) and \<^verbatim>\<open>text()\<close>.
\<close>

record response =
  status :: nat
  statusText :: string
  json :: "js_error + jsval"
  text_body :: string

definition ok :: "response \<Rightarrow> bool" where
  "ok res = (200 \<le> status res \<and> status res \<le> 299)"

datatype fetch_outcome = Rejected js_error | Responded response

text \<open>A request: method, URL and the value whose \<^verbatim>\<open>JSON.stringify\<close> text is the body.\<close>

record request =
  req_method :: string
  req_url :: string
  req_body :: "jsval option"

type_synonym network = "request \<Rightarrow> fetch_outcome"

text \<open>A status code in a template literal: its decimal digits.\<close>

fun show_nat :: "nat \<Rightarrow> string" where
  "show_nat n =
     (if n < 10 then [char_of (48 + n)]
      else show_nat (n div 10) @ [char_of (48 + n mod 10)])"

declare show_nat.simps [simp del]

text \<open>\<^verbatim>\<open>new Error(`${res.status} ${res.statusText}`)\<close>\<close>

definition status_error :: "response \<Rightarrow> js_error" where
  "status_error res = JsError ''Error'' (show_nat (status res) @ '' '' @ statusText res)"

subsection \<open>The generic client (part_001, \<^verbatim>\<open>web/src/lib/api.ts\<close>)\<close>

definition lib_API_BASE :: string where
  "lib_API_BASE = ''http://localhost:8000''"

definition getJSON :: "network \<Rightarrow> string \<Rightarrow> js_error + jsval" where
  "getJSON net path =
     (case net \<lparr>req_method = ''GET'', req_url = lib_API_BASE @ path, req_body = None\<rparr> of
        Rejected e \<Rightarrow> Inl e
      | Responded res \<Rightarrow> if \<not> ok res then Inl (status_error res) else json res)"

definition postJSON :: "network \<Rightarrow> string \<Rightarrow> jsval \<Rightarrow> js_error + jsval" where
  "postJSON net path body =
     (case net \<lparr>req_method = ''POST'', req_url = lib_API_BASE @ path, req_body = Some body\<rparr> of
        Rejected e \<Rightarrow> Inl e
      | Responded res \<Rightarrow> if \<not> ok res then Inl (status_error res) else json res)"

subsection \<open>The helpers of the typed client (\<^verbatim>\<open>web/src/api/index.ts\<close>)\<close>

text \<open>
  \<^verbatim>\<open>get(path, params)\<close> and \<^verbatim>\<open>post(path, body)\<close>. \<open>base\<close> is \<^verbatim>\<open>API_BASE\<close> as a string and
  \<open>qs\<close> stands for \<^verbatim>\<open>new URLSearchParams(params).toString()\<close>. \<^verbatim>\<open>post\<close> adds the body
  text of the response to the error message.
\<close>

definition index_get ::
  "network \<Rightarrow> string \<Rightarrow> ('p \<Rightarrow> string) \<Rightarrow> string \<Rightarrow> 'p option \<Rightarrow> js_error + jsval" where
  "index_get net base qs path params =
     (case net \<lparr>req_method = ''GET'',
                req_url = base @ path @ (case params of None \<Rightarrow> [] | Some ps \<Rightarrow> ''?'' @ qs ps),
                req_body = None\<rparr> of
        Rejected e \<Rightarrow> Inl e
      | Responded res \<Rightarrow> if \<not> ok res then Inl (status_error res) else json res)"

definition index_post :: "network \<Rightarrow> string \<Rightarrow> string \<Rightarrow> jsval option \<Rightarrow> js_error + jsval" where
  "index_post net base path body =
     (case net \<lparr>req_method = ''POST'', req_url = base @ path, req_body = body\<rparr> of
        Rejected e \<Rightarrow> Inl e
      | Responded res \<Rightarrow>
          if \<not> ok res
          then Inl (JsError ''Error''
                 (show_nat (status res) @ '' '' @ statusText res @ '': '' @ text_body res))
          else json res)"

text \<open>
  \<^verbatim>\<open>fetchJSON(url)\<close> of ProposedActions and AgentActionsAudit (part_002, part_004), as a
  function of what \<^verbatim>\<open>fetch(url)\<close> gave.
\<close>

definition fetchJSON :: "fetch_outcome \<Rightarrow> js_error + jsval" where
  "fetchJSON out =
     (case out of
        Rejected e \<Rightarrow> Inl e
      | Responded r \<Rightarrow> if \<not> ok r then Inl (status_error r) else json r)"

section \<open>Resolving the API base address\<close>

text \<open>
  What the modules read when they are loaded: whether \<^verbatim>\<open>window\<close> exists; the value of
  \<^verbatim>\<open>window.__API_BASE__\<close> (\<^verbatim>\<open>undefined\<close> when nobody set it); the value the running
  module finds at \<^verbatim>\<open>import.meta.env\<close> (\<^verbatim>\<open>undefined\<close> in a bundle that provides no such
  object); and the build-time \<^verbatim>\<open>VITE_API_BASE\<close>, a string when the build supplied one,
  which the build puts in place of the expression \<^verbatim>\<open>import.meta.env.VITE_API_BASE\<close>.
  The bundler is not part of the repository; a bundle that does provide the object at run
  time gives it the build-time value (\<open>env_object\<close>).
\<close>

record runtime_config =
  window_defined :: bool
  window_API_BASE :: jsval
  import_meta_env :: jsval
  VITE_API_BASE :: "string option"

definition js_and :: "jsval \<Rightarrow> jsval \<Rightarrow> jsval" where
  "js_and a b = (if truthy a then b else a)"

definition env_value :: "runtime_config \<Rightarrow> jsval" where
  "env_value c = (case VITE_API_BASE c of None \<Rightarrow> JUndefined | Some s \<Rightarrow> JStr s)"

definition env_object :: "string option \<Rightarrow> jsval" where
  "env_object v = JObj (case v of None \<Rightarrow> [] | Some s \<Rightarrow> [(''VITE_API_BASE'', JStr s)])"

text \<open>
  \<^verbatim>\<open>((import.meta as any)?.env || {})?.VITE_API_BASE\<close>: the property is read from the
  object found at run time, through optional chaining.
\<close>

definition runtime_env_value :: "runtime_config \<Rightarrow> jsval" where
  "runtime_env_value c = opt_prop (js_or (import_meta_env c) (JObj [])) ''VITE_API_BASE''"

text \<open>
  The constant \<^verbatim>\<open>API\<close> of ProposedActions (part_002), and word for word the same in
  AgentActionsAudit (part_004) and AgentAskRunbook.tsx.
\<close>

definition ProposedActions_API :: "runtime_config \<Rightarrow> jsval" where
  "ProposedActions_API c =
     js_or (js_or (js_and (JBool (window_defined c)) (window_API_BASE c)) (runtime_env_value c))
       (JStr ''http://localhost:8000'')"

definition AgentActionsAudit_API :: "runtime_config \<Rightarrow> jsval" where
  "AgentActionsAudit_API c =
     js_or (js_or (js_and (JBool (window_defined c)) (window_API_BASE c)) (runtime_env_value c))
       (JStr ''http://localhost:8000'')"

text \<open>\<^verbatim>\<open>s.replace(/\/$/, "")\<close>: one slash at the very end is dropped.\<close>

definition replace_trailing_slash :: "string \<Rightarrow> string" where
  "replace_trailing_slash s = (if s \<noteq> [] \<and> last s = CHR ''/'' then butlast s else s)"

text \<open>
  \<^verbatim>\<open>API_BASE\<close> of the typed client, \<^verbatim>\<open>web/src/api/index.ts\<close>:
  \<^verbatim>\<open>import.meta.env.VITE_API_BASE?.replace(/\/$/, "") || "http://localhost:8000"\<close>, the
  expression the build replaces by the build-time value.
\<close>

definition index_API_BASE :: "runtime_config \<Rightarrow> jsval" where
  "index_API_BASE c =
     js_or (case VITE_API_BASE c of
              None \<Rightarrow> JUndefined
            | Some s \<Rightarrow> JStr (replace_trailing_slash s))
       (JStr ''http://localhost:8000'')"

text \<open>
  The resolution in the specification's words: the global runtime override when one is
  set, else the build-time value when one is supplied, else the fixed local default.
  A value is set when it is truthy (an empty string sets nothing).
\<close>

definition spec_API_base :: "runtime_config \<Rightarrow> jsval" where
  "spec_API_base c =
     (if window_defined c \<and> truthy (window_API_BASE c) then window_API_BASE c
      else if truthy (env_value c) then env_value c
      else JStr ''http://localhost:8000'')"

section \<open>Proposed actions and their approval (part_002)\<close>

text \<open>\<^verbatim>\<open>type AgentAction\<close>: the row handed to \<^verbatim>\<open>approve\<close>.\<close>

record AgentAction =
  action_id :: string
  runbook_id :: string
  action_type :: string
  incident_id :: "string option"
  entity_id :: string
  action_status :: string
  triggered_by :: "string option"
  approved_by :: "string option"
  reasoning :: "string option"
  created_at :: "string option"

definition priority_labels :: "string list" where
  "priority_labels =
     [''Service'', ''Database'', ''API'', ''Server'', ''Topic'',
      ''Machine'', ''Line'', ''Plant'', ''Sensor'', ''Team'']"

text \<open>
  The callback of \<^verbatim>\<open>results.find\<close>: \<^verbatim>\<open>p = r?.props || {}\<close>, then a strict comparison of
  \<^verbatim>\<open>p?.id\<close>, \<^verbatim>\<open>p?.name\<close>, \<^verbatim>\<open>p?.title\<close> with the string \<^verbatim>\<open>eid\<close>.
\<close>

definition exact_match :: "string \<Rightarrow> jsval \<Rightarrow> bool" where
  "exact_match eid r =
     (let p = js_or (opt_prop r ''props'') (JObj [])
      in opt_prop p ''id'' = JStr eid \<or> opt_prop p ''name'' = JStr eid
         \<or> opt_prop p ''title'' = JStr eid)"

definition not_a_function :: js_error where
  "not_a_function = JsError ''TypeError'' ''is not a function''"

text \<open>
  \<^verbatim>\<open>labels.includes(t)\<close> for a string \<^verbatim>\<open>t\<close>: membership in an array, substring of a
  string; any other value has no such method and the call throws.
\<close>

fun js_includes :: "jsval \<Rightarrow> string \<Rightarrow> js_error + bool" where
  "js_includes (JArr xs) t = Inr (JStr t \<in> set xs)"
| "js_includes (JStr s) t = Inr (sublist t s)"
| "js_includes v t = Inl not_a_function"

text \<open>The \<^verbatim>\<open>for\<close> loop over the candidate labels: the first one included.\<close>

fun first_included :: "jsval \<Rightarrow> string list \<Rightarrow> js_error + string option" where
  "first_included labels [] = Inr None"
| "first_included labels (t # ts) =
     (case js_includes labels t of
        Inl e \<Rightarrow> Inl e
      | Inr True \<Rightarrow> Inr (Some t)
      | Inr False \<Rightarrow> first_included labels ts)"

text \<open>\<^verbatim>\<open>v[0]\<close> of a value that is not \<^verbatim>\<open>null\<close> or \<^verbatim>\<open>undefined\<close>.\<close>

fun index0 :: "jsval \<Rightarrow> jsval" where
  "index0 (JArr []) = JUndefined"
| "index0 (JArr (x # xs)) = x"
| "index0 (JStr []) = JUndefined"
| "index0 (JStr (c # cs)) = JStr [c]"
| "index0 (JObj kvs) = opt_prop (JObj kvs) ''0''"
| "index0 v = JUndefined"

text \<open>
  \<^verbatim>\<open>resolveEntityTypeBySearch(eid)\<close>, as a function of what the search request gave.
  Everything runs inside one \<^verbatim>\<open>try\<close>: whatever throws ends in \<^verbatim>\<open>null\<close>.
\<close>

definition resolveEntityTypeBySearch :: "fetch_outcome \<Rightarrow> string \<Rightarrow> jsval" where
  "resolveEntityTypeBySearch out eid =
     (case fetchJSON out of
        Inl e \<Rightarrow> JNull
      | Inr res \<Rightarrow>
          (let results = (case opt_prop res ''results'' of JArr rs \<Rightarrow> rs | _ \<Rightarrow> [])
           in if results = [] then JNull
              else
                (let hit = js_or (case find (exact_match eid) results of
                                    None \<Rightarrow> JUndefined
                                  | Some r \<Rightarrow> r)
                             (hd results);
                     labels = js_or (opt_prop hit ''labels'') (JArr [])
                 in case first_included labels priority_labels of
                      Inl e \<Rightarrow> JNull
                    | Inr (Some t) \<Rightarrow> JStr t
                    | Inr None \<Rightarrow> js_coalesce (index0 labels) JNull)))"

text \<open>The component's state: \<^verbatim>\<open>rows\<close>, \<^verbatim>\<open>busyId\<close>, \<^verbatim>\<open>err\<close>.\<close>

record ProposedActions_state =
  rows :: jsval
  busyId :: jsval
  err :: string

definition ProposedActions_init :: ProposedActions_state where
  "ProposedActions_init = \<lparr>rows = JArr [], busyId = JNull, err = []\<rparr>"

text \<open>\<^verbatim>\<open>e.message || fallback\<close>\<close>

definition message_or :: "js_error \<Rightarrow> string \<Rightarrow> string" where
  "message_or e fallback = (if message e = [] then fallback else message e)"

text \<open>\<^verbatim>\<open>load\<close>, as a function of what the request for the pending actions gave.\<close>

definition ProposedActions_load ::
  "ProposedActions_state \<Rightarrow> fetch_outcome \<Rightarrow> ProposedActions_state" where
  "ProposedActions_load st out =
     (case fetchJSON out of
        Inr data \<Rightarrow>
          st\<lparr>err := [],
             rows := js_coalesce (opt_prop data ''items'')
                       (case data of JArr xs \<Rightarrow> data | _ \<Rightarrow> JArr [])\<rparr>
      | Inl e \<Rightarrow>
          st\<lparr>err := message_or e ''Failed to load proposed actions'', rows := JArr []\<rparr>)"

text \<open>
  The execute request of \<^verbatim>\<open>approve\<close>. \<open>API\<close> is the base address as a string and
  \<open>enc\<close> stands for \<^verbatim>\<open>encodeURIComponent\<close>.
\<close>

definition approve_entityType :: "fetch_outcome \<Rightarrow> AgentAction \<Rightarrow> jsval" where
  "approve_entityType search row =
     js_or (resolveEntityTypeBySearch search (entity_id row)) (JStr ''Service'')"

definition execute_request ::
  "string \<Rightarrow> (string \<Rightarrow> string) \<Rightarrow> AgentAction \<Rightarrow> jsval \<Rightarrow> request" where
  "execute_request API enc row entityType =
     \<lparr>req_method = ''POST'',
      req_url = API @ ''/runbooks/'' @ enc (runbook_id row) @ ''/execute?mode=execute'',
      req_body = Some (JObj
        [(''targets'', JArr [JObj [(''entity_type'', entityType),
                                   (''entity_id'', JStr (entity_id row))]]),
         (''reason'', JStr (''Approved action '' @ action_id row @ '' from UI''))])\<rparr>"

text \<open>
  \<^verbatim>\<open>approve(row)\<close>: \<open>search\<close> is what the search request gave, \<open>net\<close> answers the
  execute request, \<open>reload\<close> is what the request of the final \<^verbatim>\<open>load()\<close> gave.
\<close>

definition approve ::
  "string \<Rightarrow> (string \<Rightarrow> string) \<Rightarrow> ProposedActions_state \<Rightarrow> AgentAction
     \<Rightarrow> fetch_outcome \<Rightarrow> network \<Rightarrow> fetch_outcome \<Rightarrow> ProposedActions_state" where
  "approve API enc st row search net reload =
     (let st1 = st\<lparr>busyId := JStr (action_id row), err := []\<rparr>;
          entityType = approve_entityType search row;
          st2 = (case net (execute_request API enc row entityType) of
                   Rejected e \<Rightarrow> st1\<lparr>err := message_or e ''Approval failed''\<rparr>
                 | Responded r \<Rightarrow>
                     if \<not> ok r
                     then st1\<lparr>err := message_or
                            (JsError ''Error''
                               (''Execute failed: '' @ show_nat (status r) @ '' '' @ text_body r))
                            ''Approval failed''\<rparr>
                     else ProposedActions_load st1 reload)
      in st2\<lparr>busyId := JNull\<rparr>)"

text \<open>
  What the component renders. \<^verbatim>\<open>a === b\<close> where one side is \<^verbatim>\<open>null\<close>, a string or a
  number: equal primitives; an array or object is never identical to it.
\<close>

definition strict_eq :: "jsval \<Rightarrow> jsval \<Rightarrow> bool" where
  "strict_eq a b = (case a of JArr xs \<Rightarrow> False | JObj kvs \<Rightarrow> False | _ \<Rightarrow> a = b)"

text \<open>\<^verbatim>\<open>rows.length\<close>; reading it of \<^verbatim>\<open>null\<close> or \<^verbatim>\<open>undefined\<close> throws.\<close>

fun js_length :: "jsval \<Rightarrow> js_error + jsval" where
  "js_length (JArr xs) = Inr (JNum (real (length xs)))"
| "js_length (JStr s) = Inr (JNum (real (length s)))"
| "js_length (JObj kvs) = Inr (opt_prop (JObj kvs) ''length'')"
| "js_length JNull = Inl read_prop_error"
| "js_length JUndefined = Inl read_prop_error"
| "js_length v = Inr JUndefined"

text \<open>\<^verbatim>\<open>rows.map(f)\<close>: the rows \<^verbatim>\<open>f\<close> is applied to; only an array has the method.\<close>

fun js_map_rows :: "(jsval \<Rightarrow> js_error + 'a) \<Rightarrow> jsval list \<Rightarrow> js_error + 'a list" where
  "js_map_rows f [] = Inr []"
| "js_map_rows f (x # xs) =
     (case f x of
        Inl e \<Rightarrow> Inl e
      | Inr y \<Rightarrow> (case js_map_rows f xs of Inl e \<Rightarrow> Inl e | Inr ys \<Rightarrow> Inr (y # ys)))"

definition js_map :: "(jsval \<Rightarrow> js_error + 'a) \<Rightarrow> jsval \<Rightarrow> js_error + 'a list" where
  "js_map f v = (case v of JArr xs \<Rightarrow> js_map_rows f xs | _ \<Rightarrow> Inl not_a_function)"

text \<open>
  One table row of ProposedActions: the key, the five cells as handed to React and the
  state of the button.
\<close>

record ProposedActions_row =
  row_key :: jsval
  row_cells :: "jsval list"
  button_disabled :: bool
  button_text :: string

definition ProposedActions_tr :: "ProposedActions_state \<Rightarrow> jsval \<Rightarrow> js_error + ProposedActions_row" where
  "ProposedActions_tr st r =
     (case get_prop r ''action_id'' of
        Inl e \<Rightarrow> Inl e
      | Inr aid \<Rightarrow>
          Inr \<lparr>row_key = aid,
               row_cells = [aid, opt_prop r ''runbook_id'', opt_prop r ''entity_id'',
                            js_or (opt_prop r ''reasoning'') (JStr ''-''),
                            js_or (opt_prop r ''created_at'') (JStr ''-'')],
               button_disabled = strict_eq (busyId st) aid,
               button_text = (if strict_eq (busyId st) aid then ''Approving...''
                              else ''Approve & Execute'')\<rparr>)"

datatype 'row table = NoRows | Rows "'row list"

text \<open>The error banner (shown when \<^verbatim>\<open>err\<close> is not empty) and the table.\<close>

definition ProposedActions_render ::
  "ProposedActions_state \<Rightarrow> js_error + (string option \<times> ProposedActions_row table)" where
  "ProposedActions_render st =
     (let banner = (if err st = [] then None else Some (''Error: '' @ err st))
      in case js_length (rows st) of
           Inl e \<Rightarrow> Inl e
         | Inr n \<Rightarrow>
             if strict_eq n (JNum 0) then Inr (banner, NoRows)
             else (case js_map (ProposedActions_tr st) (rows st) of
                     Inl e \<Rightarrow> Inl e
                   | Inr trs \<Rightarrow> Inr (banner, Rows trs)))"

section \<open>The audit log (part_004)\<close>

record AgentActionsAudit_state =
  audit_status :: string
  audit_rows :: jsval
  audit_busy :: bool
  audit_err :: string

definition AgentActionsAudit_init :: AgentActionsAudit_state where
  "AgentActionsAudit_init =
     \<lparr>audit_status = ''all'', audit_rows = JArr [], audit_busy = False, audit_err = []\<rparr>"

text \<open>The \<^verbatim>\<open>url\<close> memo: the status filter is left out for \<^verbatim>\<open>all\<close>.\<close>

definition AgentActionsAudit_url ::
  "string \<Rightarrow> (string \<Rightarrow> string) \<Rightarrow> AgentActionsAudit_state \<Rightarrow> string" where
  "AgentActionsAudit_url API enc st =
     (let base = API @ ''/runbooks/agent-actions''
      in if audit_status st = ''all'' then base
         else base @ ''?status='' @ enc (audit_status st))"

text \<open>\<^verbatim>\<open>load\<close>, as a function of what the request gave; \<^verbatim>\<open>finally\<close> clears \<^verbatim>\<open>busy\<close>.\<close>

definition AgentActionsAudit_load ::
  "AgentActionsAudit_state \<Rightarrow> fetch_outcome \<Rightarrow> AgentActionsAudit_state" where
  "AgentActionsAudit_load st out =
     (let st1 = st\<lparr>audit_busy := True, audit_err := []\<rparr>;
          st2 = (case fetchJSON out of
                   Inr data \<Rightarrow>
                     st1\<lparr>audit_rows := js_coalesce (opt_prop data ''items'')
                                          (case data of JArr xs \<Rightarrow> data | _ \<Rightarrow> JArr [])\<rparr>
                 | Inl e \<Rightarrow>
                     st1\<lparr>audit_err := message_or e ''Failed to load agent actions'',
                         audit_rows := JArr []\<rparr>)
      in st2\<lparr>audit_busy := False\<rparr>)"

text \<open>One table row: eight cells, a dash for every falsy field but the action id.\<close>

definition AgentActionsAudit_tr :: "jsval \<Rightarrow> js_error + (jsval \<times> jsval list)" where
  "AgentActionsAudit_tr r =
     (case get_prop r ''action_id'' of
        Inl e \<Rightarrow> Inl e
      | Inr aid \<Rightarrow>
          Inr (aid,
               [js_or (opt_prop r ''created_at'') (JStr ''-''),
                aid,
                js_or (opt_prop r ''runbook_id'') (JStr ''-''),
                js_or (opt_prop r ''entity_id'') (JStr ''-''),
                js_or (opt_prop r ''status'') (JStr ''-''),
                js_or (opt_prop r ''triggered_by'') (JStr ''-''),
                js_or (opt_prop r ''approved_by'') (JStr ''-''),
                js_or (opt_prop r ''reasoning'') (JStr ''-'')]))"

definition AgentActionsAudit_render ::
  "AgentActionsAudit_state \<Rightarrow> js_error + (string option \<times> (jsval \<times> jsval list) table)" where
  "AgentActionsAudit_render st =
     (let banner = (if audit_err st = [] then None else Some (''Error: '' @ audit_err st))
      in case js_length (audit_rows st) of
           Inl e \<Rightarrow> Inl e
         | Inr n \<Rightarrow>
             if strict_eq n (JNum 0) then Inr (banner, NoRows)
             else (case js_map AgentActionsAudit_tr (audit_rows st) of
                     Inl e \<Rightarrow> Inl e
                   | Inr trs \<Rightarrow> Inr (banner, Rows trs)))"

section \<open>The agent dock (AgentDock.tsx)\<close>

record AgentDock_state =
  dock_open :: bool
  msg :: string
  busy :: bool
  resp :: jsval
  showReason :: bool

text \<open>\<^verbatim>\<open>String(err)\<close> of an error: \<^verbatim>\<open>Error.prototype.toString\<close>.\<close>

definition String_of_error :: "js_error \<Rightarrow> string" where
  "String_of_error e =
     (if err_name e = [] then message e
      else if message e = [] then err_name e
      else err_name e @ '': '' @ message e)"

definition client_error_reply :: "js_error \<Rightarrow> jsval" where
  "client_error_reply e =
     JObj [(''reply'', JStr (String_of_error e)), (''confidence'', JNum 0),
           (''reasoning_summary'', JStr ''Client error'')]"

text \<open>
  \<^verbatim>\<open>ask\<close>, as a function of what the request gave. \<open>blank\<close> stands for
  \<^verbatim>\<open>!msg.trim()\<close>. The handler does not look at \<^verbatim>\<open>r.ok\<close>: it decodes the body of
  whatever response arrived and stores it.
\<close>

definition AgentDock_ask ::
  "(string \<Rightarrow> bool) \<Rightarrow> AgentDock_state \<Rightarrow> fetch_outcome \<Rightarrow> AgentDock_state" where
  "AgentDock_ask blank st out =
     (if blank (msg st) then st
      else
        (let st1 = st\<lparr>busy := True, showReason := False\<rparr>;
             st2 = (case out of
                      Rejected e \<Rightarrow> st1\<lparr>resp := client_error_reply e\<rparr>
                    | Responded r \<Rightarrow>
                        (case json r of
                           Inl e \<Rightarrow> st1\<lparr>resp := client_error_reply e\<rparr>
                         | Inr j \<Rightarrow> st1\<lparr>resp := j\<rparr>))
         in st2\<lparr>busy := False\<rparr>))"

text \<open>
  \<^verbatim>\<open>ask\<close> of the sibling AgentAskRunbook.tsx, which posts to the same endpoint: it
  throws on \<^verbatim>\<open>!r.ok\<close> before decoding, and shows the message in its error banner.
\<close>

record AgentAskRunbook_state =
  ask_busy :: bool
  ask_err :: string
  ask_reply :: jsval

definition AgentAskRunbook_ask :: "AgentAskRunbook_state \<Rightarrow> fetch_outcome \<Rightarrow> AgentAskRunbook_state" where
  "AgentAskRunbook_ask st out =
     (let st1 = st\<lparr>ask_busy := True, ask_err := [], ask_reply := JNull\<rparr>;
          st2 = (case fetchJSON out of
                   Inl e \<Rightarrow> st1\<lparr>ask_err := message_or e ''Agent error''\<rparr>
                 | Inr data \<Rightarrow> st1\<lparr>ask_reply := data\<rparr>)
      in st2\<lparr>ask_busy := False\<rparr>)"

text \<open>What the dock shows once \<^verbatim>\<open>resp\<close> is truthy: reply text and reasoning summary.\<close>

definition AgentDock_reply_text :: "AgentDock_state \<Rightarrow> jsval" where
  "AgentDock_reply_text st = opt_prop (resp st) ''reply''"

definition AgentDock_summary :: "AgentDock_state \<Rightarrow> jsval" where
  "AgentDock_summary st = opt_prop (resp st) ''reasoning_summary''"

section \<open>The graph schema (part_000, lines 16 to 43)\<close>

text \<open>
  A schema statement: a uniqueness constraint on one property of one label, or a
  full-text index over labels and properties; the flag says whether the statement
  carries \<^verbatim>\<open>IF NOT EXISTS\<close>.
\<close>

datatype ddl =
    CreateConstraint string bool string string
  | CreateFulltextIndex string bool "string list" "string list"

definition schema :: "ddl list" where
  "schema =
     [CreateConstraint ''site_id'' True ''Site'' ''id'',
      CreateConstraint ''plant_id'' True ''Plant'' ''id'',
      CreateConstraint ''line_id'' True ''Line'' ''id'',
      CreateConstraint ''machine_id'' True ''Machine'' ''id'',
      CreateConstraint ''sensor_id'' True ''Sensor'' ''id'',
      CreateConstraint ''service_id'' True ''Service'' ''id'',
      CreateConstraint ''database_id'' True ''Database'' ''id'',
      CreateConstraint ''team_id'' True ''Team'' ''id'',
      CreateConstraint ''incident_id'' True ''Incident'' ''id'',
      CreateConstraint ''alert_id'' True ''Alert'' ''id'',
      CreateConstraint ''ticket_id'' True ''Ticket'' ''id'',
      CreateConstraint ''runbook_id'' True ''Runbook'' ''id'',
      CreateConstraint ''action_id'' True ''AgentAction'' ''id'',
      CreateConstraint ''api_id'' True ''API'' ''id'',
      CreateConstraint ''topic_id'' True ''Topic'' ''id'',
      CreateConstraint ''server_id'' True ''Server'' ''id'',
      CreateConstraint ''netdev_id'' True ''NetworkDevice'' ''id'',
      CreateConstraint ''user_id'' True ''User'' ''id'',
      CreateConstraint ''alerttype_id'' True ''AlertType'' ''id'',
      CreateFulltextIndex ''entity_text'' True
        [''Service'', ''Machine'', ''Line'', ''Plant'', ''Database'', ''Sensor'', ''API'',
         ''Server'', ''Topic'', ''Incident'', ''Alert'', ''Team'']
        [''id'', ''name'', ''title'']]"

text \<open>
  The database's catalog of constraints and indexes, and the engine's reading of a
  statement: one whose name is taken, or whose constraint or index already exists under
  any name, changes nothing when it is guarded and is an error when it is not.
\<close>

record catalog =
  constraints :: "(string \<times> string \<times> string) list"
  indexes :: "(string \<times> string list \<times> string list) list"

datatype ddl_error = AlreadyExists string

definition name_taken :: "catalog \<Rightarrow> string \<Rightarrow> bool" where
  "name_taken cat n = (n \<in> set (map fst (constraints cat)) \<or> n \<in> set (map fst (indexes cat)))"

fun present :: "ddl \<Rightarrow> catalog \<Rightarrow> bool" where
  "present (CreateConstraint n g l p) cat =
     (name_taken cat n \<or> (l, p) \<in> set (map snd (constraints cat)))"
| "present (CreateFulltextIndex n g ls ps) cat =
     (name_taken cat n \<or> (ls, ps) \<in> set (map snd (indexes cat)))"

fun guarded :: "ddl \<Rightarrow> bool" where
  "guarded (CreateConstraint n g l p) = g"
| "guarded (CreateFulltextIndex n g ls ps) = g"

fun ddl_name :: "ddl \<Rightarrow> string" where
  "ddl_name (CreateConstraint n g l p) = n"
| "ddl_name (CreateFulltextIndex n g ls ps) = n"

fun record_ddl :: "ddl \<Rightarrow> catalog \<Rightarrow> catalog" where
  "record_ddl (CreateConstraint n g l p) cat = cat\<lparr>constraints := constraints cat @ [(n, l, p)]\<rparr>"
| "record_ddl (CreateFulltextIndex n g ls ps) cat = cat\<lparr>indexes := indexes cat @ [(n, ls, ps)]\<rparr>"

definition apply_ddl :: "ddl \<Rightarrow> catalog \<Rightarrow> ddl_error + catalog" where
  "apply_ddl d cat =
     (if present d cat then (if guarded d then Inr cat else Inl (AlreadyExists (ddl_name d)))
      else Inr (record_ddl d cat))"

fun apply_schema :: "ddl list \<Rightarrow> catalog \<Rightarrow> ddl_error + catalog" where
  "apply_schema [] cat = Inr cat"
| "apply_schema (d # ds) cat =
     (case apply_ddl d cat of Inl e \<Rightarrow> Inl e | Inr cat' \<Rightarrow> apply_schema ds cat')"

text \<open>The node labels of the data model, as the specification's table lists them.\<close>

definition spec_node_labels :: "string list" where
  "spec_node_labels =
     [''Site'', ''Plant'', ''Line'', ''Machine'', ''Sensor'',
      ''Service'', ''Database'', ''API'', ''Server'', ''Topic'',
      ''Team'', ''User'',
      ''Incident'', ''Alert'', ''Ticket'',
      ''Runbook'', ''AgentAction'',
      ''AlertType'', ''NetworkDevice'']"

fun unique_id_constraint_on :: "string \<Rightarrow> ddl \<Rightarrow> bool" where
  "unique_id_constraint_on l (CreateConstraint n g l' p) = (l' = l \<and> p = ''id'')"
| "unique_id_constraint_on l (CreateFulltextIndex n g ls ps) = False"

fun is_constraint :: "ddl \<Rightarrow> bool" where
  "is_constraint (CreateConstraint n g l p) = True"
| "is_constraint (CreateFulltextIndex n g ls ps) = False"

section \<open>The seed statements (part_000, lines 44 to 235)\<close>

text \<open>
  The seed is a script of \<^verbatim>\<open>MERGE\<close> clauses for the graph engine, which is not part of
  the repository. A property value is a string, an integer or a point in time; a node has
  labels and properties, a relationship a type and properties; nodes are never deleted,
  so a node is known by its position.
\<close>

datatype pval = PStr string | PInt int | PTime nat

type_synonym props = "(string \<times> pval) list"

record node =
  node_labels :: "string list"
  node_props :: props

record rel =
  rel_src :: nat
  rel_type :: string
  rel_props :: props
  rel_dst :: nat

record graph =
  nodes :: "node list"
  rels :: "rel list"

definition empty_graph :: graph where
  "empty_graph = \<lparr>nodes = [], rels = []\<rparr>"

text \<open>
  The two clauses of the script: \<^verbatim>\<open>MERGE (v:Label {props}) ON CREATE SET ... ON MATCH SET ...\<close>
  (either list of assignments may be empty), and \<^verbatim>\<open>MERGE (a)-[:TYPE {props}]->(b)\<close>
  between two variables. The right-hand side of an assignment is a literal or
  \<^verbatim>\<open>datetime()\<close>.
\<close>

datatype expr = Lit pval | Datetime

datatype clause =
    MergeNode string string props "(string \<times> expr) list" "(string \<times> expr) list"
  | MergeRel string string props string

fun eval_expr :: "nat \<Rightarrow> expr \<Rightarrow> pval" where
  "eval_expr now (Lit v) = v"
| "eval_expr now Datetime = PTime now"

fun set_props :: "nat \<Rightarrow> (string \<times> expr) list \<Rightarrow> props \<Rightarrow> props" where
  "set_props now [] ps = ps"
| "set_props now ((k, e) # sets) ps = set_props now sets (AList.update k (eval_expr now e) ps)"

definition has_props :: "props \<Rightarrow> props \<Rightarrow> bool" where
  "has_props pat ps = list_all (\<lambda>(k, v). map_of ps k = Some v) pat"

definition node_matches :: "string \<Rightarrow> props \<Rightarrow> node \<Rightarrow> bool" where
  "node_matches l pat n = (l \<in> set (node_labels n) \<and> has_props pat (node_props n))"

definition matching_nodes :: "graph \<Rightarrow> string \<Rightarrow> props \<Rightarrow> nat list" where
  "matching_nodes g l pat = filter (\<lambda>i. node_matches l pat (nodes g ! i)) [0..<length (nodes g)]"

definition touch :: "nat \<Rightarrow> (string \<times> expr) list \<Rightarrow> nat list \<Rightarrow> node list \<Rightarrow> node list" where
  "touch now sets ids ns =
     map (\<lambda>(i, n). if i \<in> set ids then n\<lparr>node_props := set_props now sets (node_props n)\<rparr> else n)
       (zip [0..<length ns] ns)"

text \<open>
  The engine runs a statement on a table of rows; a row gives each variable bound so far
  one node. A statement starts with one empty row, and a clause is run for every row in
  turn, each run seeing what the runs before it did to the graph.
\<close>

type_synonym row = "(string \<times> nat) list"

text \<open>
  \<^verbatim>\<open>MERGE (v:Label {props}) ON CREATE SET ... ON MATCH SET ...\<close> for one row, at time \<open>now\<close>
  (what \<^verbatim>\<open>datetime()\<close> gives): the pattern matches every node with the label and the
  properties. When none matches, a node with them is created, the \<^verbatim>\<open>ON CREATE\<close>
  assignments are applied to it and \<open>v\<close> names it; otherwise the \<^verbatim>\<open>ON MATCH\<close>
  assignments are applied to every match, and there is one row for each.
\<close>

definition merge_node ::
  "nat \<Rightarrow> string \<Rightarrow> string \<Rightarrow> props \<Rightarrow> (string \<times> expr) list \<Rightarrow> (string \<times> expr) list
     \<Rightarrow> graph \<Rightarrow> row \<Rightarrow> graph \<times> row list" where
  "merge_node now v l pat on_create on_match g r =
     (case matching_nodes g l pat of
        [] \<Rightarrow>
          (g\<lparr>nodes := nodes g @ [\<lparr>node_labels = [l], node_props = set_props now on_create pat\<rparr>]\<rparr>,
           [AList.update v (length (nodes g)) r])
      | i # ids \<Rightarrow>
          (g\<lparr>nodes := touch now on_match (i # ids) (nodes g)\<rparr>,
           map (\<lambda>j. AList.update v j r) (i # ids)))"

text \<open>
  \<^verbatim>\<open>MERGE (a)-[:TYPE {props}]->(b)\<close> for one row. The pattern matches every relationship
  of the type with the properties whose ends are the nodes of \<open>a\<close> and \<open>b\<close>, where the row
  binds them; a variable the row does not bind stands for any node. With a match nothing
  is created, and there is one row for each match, binding \<open>a\<close> and \<open>b\<close> to its ends.
  With no match the whole pattern is created: a node without label or property for each
  variable that the row does not bind, and the relationship.
\<close>

definition rel_matches :: "row \<Rightarrow> string \<Rightarrow> string \<Rightarrow> props \<Rightarrow> string \<Rightarrow> rel \<Rightarrow> bool" where
  "rel_matches r a t ps b e =
     (rel_type e = t \<and> has_props ps (rel_props e)
      \<and> map_of r a \<in> {None, Some (rel_src e)}
      \<and> map_of (AList.update a (rel_src e) r) b \<in> {None, Some (rel_dst e)})"

definition endpoint :: "string \<Rightarrow> graph \<times> row \<Rightarrow> nat \<times> graph \<times> row" where
  "endpoint v s =
     (case s of (g, r) \<Rightarrow>
        (case map_of r v of
           Some i \<Rightarrow> (i, g, r)
         | None \<Rightarrow>
             (length (nodes g),
              g\<lparr>nodes := nodes g @ [\<lparr>node_labels = [], node_props = []\<rparr>]\<rparr>,
              AList.update v (length (nodes g)) r)))"

definition merge_rel ::
  "string \<Rightarrow> string \<Rightarrow> props \<Rightarrow> string \<Rightarrow> graph \<Rightarrow> row \<Rightarrow> graph \<times> row list" where
  "merge_rel a t ps b g r =
     (case filter (rel_matches r a t ps b) (rels g) of
        [] \<Rightarrow>
          (case endpoint a (g, r) of (x, g1, r1) \<Rightarrow>
             (case endpoint b (g1, r1) of (y, g2, r2) \<Rightarrow>
                (g2\<lparr>rels := rels g2 @ [\<lparr>rel_src = x, rel_type = t, rel_props = ps, rel_dst = y\<rparr>]\<rparr>,
                 [r2])))
      | e # es \<Rightarrow>
          (g, map (\<lambda>e. AList.update b (rel_dst e) (AList.update a (rel_src e) r)) (e # es)))"

fun exec_row :: "nat \<Rightarrow> clause \<Rightarrow> graph \<Rightarrow> row \<Rightarrow> graph \<times> row list" where
  "exec_row now (MergeNode v l pat on_create on_match) g r =
     merge_node now v l pat on_create on_match g r"
| "exec_row now (MergeRel a t ps b) g r = merge_rel a t ps b g r"

fun exec :: "nat \<Rightarrow> clause \<Rightarrow> graph \<times> row list \<Rightarrow> graph \<times> row list" where
  "exec now c (g, []) = (g, [])"
| "exec now c (g, r # rs) =
     (case exec_row now c g r of (g1, out1) \<Rightarrow>
        (case exec now c (g1, rs) of (g2, out2) \<Rightarrow> (g2, out1 @ out2)))"

fun run_clauses :: "nat \<Rightarrow> clause list \<Rightarrow> graph \<times> row list \<Rightarrow> graph \<times> row list" where
  "run_clauses now [] s = s"
| "run_clauses now (c # cs) s = run_clauses now cs (exec now c s)"

text \<open>
  A statement is the clauses up to a semicolon (or the end of the file). Its variables are
  its own, and the engine checks it before running it: a node pattern with a label may
  introduce a variable but not use one that the statement has declared already
  (``variable already declared''). \<open>redeclared\<close> gives the first variable a statement
  declares twice. A rejected statement changes nothing.
\<close>

datatype cypher_error = AlreadyDeclared string

fun redeclared :: "string list \<Rightarrow> clause list \<Rightarrow> string option" where
  "redeclared bound [] = None"
| "redeclared bound (MergeNode v l pat on_create on_match # cs) =
     (if v \<in> set bound then Some v else redeclared (v # bound) cs)"
| "redeclared bound (MergeRel a t ps b # cs) = redeclared (a # b # bound) cs"

definition run_statement :: "nat \<Rightarrow> clause list \<Rightarrow> graph \<Rightarrow> cypher_error + graph" where
  "run_statement now cs g =
     (case redeclared [] cs of
        Some v \<Rightarrow> Inl (AlreadyDeclared v)
      | None \<Rightarrow> Inr (fst (run_clauses now cs (g, [[]]))))"

text \<open>
  A file of statements, run in order, statement \<open>k\<close> at time \<open>clock k\<close>, up to the
  first statement the engine rejects.
\<close>

fun run_statements :: "(nat \<Rightarrow> nat) \<Rightarrow> nat \<Rightarrow> clause list list \<Rightarrow> graph \<Rightarrow> cypher_error + graph" where
  "run_statements clock k [] g = Inr g"
| "run_statements clock k (s # ss) g =
     (case run_statement (clock k) s g of
        Inl e \<Rightarrow> Inl e
      | Inr g' \<Rightarrow> run_statements clock (Suc k) ss g')"

text \<open>
  The loader hands the statements of the script to the engine one by one, statement \<open>k\<close>
  at time \<open>clock k\<close>; what a statement did stays done when a later one is rejected. The
  loader itself is not in the repository: it may stop at the first rejected statement or
  go on with the next one. Both are modelled; the result is the graph and the errors.
\<close>

datatype on_error = Stop | Continue

fun load ::
  "on_error \<Rightarrow> (nat \<Rightarrow> nat) \<Rightarrow> nat \<Rightarrow> clause list list \<Rightarrow> graph \<Rightarrow> graph \<times> cypher_error list" where
  "load policy clock k [] g = (g, [])"
| "load policy clock k (s # ss) g =
     (case run_statement (clock k) s g of
        Inr g' \<Rightarrow> load policy clock (Suc k) ss g'
      | Inl e \<Rightarrow>
          (case policy of
             Stop \<Rightarrow> (g, [e])
           | Continue \<Rightarrow>
               (case load policy clock (Suc k) ss g of (g', es) \<Rightarrow> (g', e # es))))"

text \<open>Lines 44 to 97: thirteen statements, each one \<^verbatim>\<open>MERGE\<close> of a node with both branches.\<close>

definition seed_nodes :: "clause list" where
  "seed_nodes =
     [MergeNode ''site'' ''Site'' [(''id'', PStr ''Site-1'')]
        [(''name'', Lit (PStr ''Factory Campus'')), (''created_at'', Datetime)]
        [(''updated_at'', Datetime)],
      MergeNode ''plant'' ''Plant'' [(''id'', PStr ''Plant-A'')]
        [(''name'', Lit (PStr ''Plant A'')), (''created_at'', Datetime)]
        [(''updated_at'', Datetime)],
      MergeNode ''line'' ''Line'' [(''id'', PStr ''Line-3'')]
        [(''name'', Lit (PStr ''Assembly Line 3'')), (''created_at'', Datetime)]
        [(''updated_at'', Datetime)],
      MergeNode ''m1'' ''Machine'' [(''id'', PStr ''M-42'')]
        [(''name'', Lit (PStr ''Cutter M-42'')), (''criticality'', Lit (PStr ''high'')),
         (''created_at'', Datetime)]
        [(''updated_at'', Datetime)],
      MergeNode ''m2'' ''Machine'' [(''id'', PStr ''P-7'')]
        [(''name'', Lit (PStr ''Pump P-7'')), (''criticality'', Lit (PStr ''high'')),
         (''created_at'', Datetime)]
        [(''updated_at'', Datetime)],
      MergeNode ''s22'' ''Sensor'' [(''id'', PStr ''S-22'')]
        [(''name'', Lit (PStr ''Vibration S-22'')), (''created_at'', Datetime)]
        [(''updated_at'', Datetime)],
      MergeNode ''svc'' ''Service'' [(''id'', PStr ''order-service'')]
        [(''name'', Lit (PStr ''Order Service'')), (''tier'', Lit (PInt 2)),
         (''created_at'', Datetime)]
        [(''updated_at'', Datetime)],
      MergeNode ''db'' ''Database'' [(''id'', PStr ''orders-db'')]
        [(''name'', Lit (PStr ''Orders DB'')), (''engine'', Lit (PStr ''postgres'')),
         (''created_at'', Datetime)]
        [(''updated_at'', Datetime)],
      MergeNode ''api'' ''API'' [(''id'', PStr ''payments-api'')]
        [(''name'', Lit (PStr ''Payments API'')), (''version'', Lit (PStr ''v1'')),
         (''created_at'', Datetime)]
        [(''updated_at'', Datetime)],
      MergeNode ''srv'' ''Server'' [(''id'', PStr ''srv-10'')]
        [(''name'', Lit (PStr ''App Server 10'')), (''az'', Lit (PStr ''us-east-1a'')),
         (''created_at'', Datetime)]
        [(''updated_at'', Datetime)],
      MergeNode ''topic1'' ''Topic'' [(''id'', PStr ''orders-events'')]
        [(''name'', Lit (PStr ''orders-events'')), (''partitions'', Lit (PInt 6)),
         (''created_at'', Datetime)]
        [(''updated_at'', Datetime)],
      MergeNode ''team'' ''Team'' [(''id'', PStr ''Team-A'')]
        [(''name'', Lit (PStr ''Core Platform'')), (''created_at'', Datetime)]
        [(''updated_at'', Datetime)],
      MergeNode ''user'' ''User'' [(''id'', PStr ''sre-1'')]
        [(''name'', Lit (PStr ''On-Call SRE 1'')), (''role'', Lit (PStr ''SRE'')),
         (''created_at'', Datetime)]
        [(''updated_at'', Datetime)]]"

text \<open>Lines 99 to 142: containment and dependencies. No semicolon separates these clauses before
  the one that closes line 142, so they are one statement.\<close>

definition relationships_statement :: "clause list" where
  "relationships_statement =
     [MergeNode ''site'' ''Site'' [(''id'', PStr ''Site-1'')] [] [],
      MergeNode ''plant'' ''Plant'' [(''id'', PStr ''Plant-A'')] [] [],
      MergeRel ''site'' ''HAS_PLANT'' [] ''plant'',
      MergeNode ''plant'' ''Plant'' [(''id'', PStr ''Plant-A'')] [] [],
      MergeNode ''line'' ''Line'' [(''id'', PStr ''Line-3'')] [] [],
      MergeRel ''plant'' ''HAS_LINE'' [] ''line'',
      MergeNode ''line'' ''Line'' [(''id'', PStr ''Line-3'')] [] [],
      MergeNode ''m1'' ''Machine'' [(''id'', PStr ''M-42'')] [] [],
      MergeRel ''line'' ''HAS_MACHINE'' [] ''m1'',
      MergeNode ''line'' ''Line'' [(''id'', PStr ''Line-3'')] [] [],
      MergeNode ''m2'' ''Machine'' [(''id'', PStr ''P-7'')] [] [],
      MergeRel ''line'' ''HAS_MACHINE'' [] ''m2'',
      MergeNode ''m1'' ''Machine'' [(''id'', PStr ''M-42'')] [] [],
      MergeNode ''s22'' ''Sensor'' [(''id'', PStr ''S-22'')] [] [],
      MergeRel ''m1'' ''HAS_SENSOR'' [] ''s22'',
      MergeNode ''svc'' ''Service'' [(''id'', PStr ''order-service'')] [] [],
      MergeNode ''srv'' ''Server'' [(''id'', PStr ''srv-10'')] [] [],
      MergeRel ''svc'' ''RUNS_ON'' [(''strength'', PStr ''critical'')] ''srv'',
      MergeNode ''db'' ''Database'' [(''id'', PStr ''orders-db'')] [] [],
      MergeRel ''svc'' ''USES_DB''
        [(''dependency_type'', PStr ''READS_FROM''), (''strength'', PStr ''critical'')] ''db'',
      MergeNode ''api'' ''API'' [(''id'', PStr ''payments-api'')] [] [],
      MergeRel ''svc'' ''CALLS_API''
        [(''dependency_type'', PStr ''USES''), (''strength'', PStr ''normal'')] ''api'',
      MergeNode ''topic1'' ''Topic'' [(''id'', PStr ''orders-events'')] [] [],
      MergeRel ''svc'' ''PUBLISHES_TO'' [] ''topic1'',
      MergeNode ''svc2'' ''Service'' [(''id'', PStr ''billing-service'')]
        [(''name'', Lit (PStr ''Billing Service'')), (''tier'', Lit (PInt 2)),
         (''created_at'', Datetime)]
        [(''updated_at'', Datetime)]]"

text \<open>Lines 144 to 149: consumption and ownership.\<close>

definition relationships_rest :: "clause list" where
  "relationships_rest =
     [MergeRel ''svc2'' ''CONSUMES_FROM'' [] ''topic1'',
      MergeNode ''team'' ''Team'' [(''id'', PStr ''Team-A'')] [] [],
      MergeRel ''svc'' ''OWNED_BY'' [] ''team'',
      MergeRel ''svc2'' ''OWNED_BY'' [] ''team'']"

text \<open>
  Lines 150 to 178: an incident, its alerts and its ticket. The semicolons of lines 153,
  163, 171 and 177 make five statements of them.
\<close>

definition incidents_file :: "clause list list" where
  "incidents_file =
     [[MergeNode ''inc'' ''Incident'' [(''id'', PStr ''INC-1001'')]
         [(''title'', Lit (PStr ''Line-3 throughput drop'')), (''severity'', Lit (PStr ''high'')),
          (''status'', Lit (PStr ''open'')), (''created_at'', Datetime)]
         [(''updated_at'', Datetime)]],
      [MergeNode ''m2'' ''Machine'' [(''id'', PStr ''P-7'')] [] [],
       MergeNode ''svc'' ''Service'' [(''id'', PStr ''order-service'')] [] [],
       MergeRel ''inc'' ''AFFECTS'' [] ''m2'',
       MergeRel ''inc'' ''AFFECTS'' [] ''svc'',
       MergeNode ''al'' ''Alert'' [(''id'', PStr ''ALERT-5001'')]
         [(''name'', Lit (PStr ''Vibration high S-22'')), (''severity'', Lit (PStr ''warning'')),
          (''source'', Lit (PStr ''monitoring'')), (''created_at'', Datetime)]
         [(''updated_at'', Datetime)]],
      [MergeNode ''s22'' ''Sensor'' [(''id'', PStr ''S-22'')] [] [],
       MergeRel ''al'' ''ABOUT'' [] ''s22'',
       MergeNode ''al2'' ''Alert'' [(''id'', PStr ''ALERT-5002'')]
         [(''name'', Lit (PStr ''Pump P-7 temp spike'')), (''severity'', Lit (PStr ''warning'')),
          (''source'', Lit (PStr ''monitoring'')), (''created_at'', Datetime)]
         [(''updated_at'', Datetime)]],
      [MergeRel ''al'' ''CORRELATED_WITH'' [] ''al2'',
       MergeNode ''t'' ''Ticket'' [(''id'', PStr ''TIC-9001'')]
         [(''title'', Lit (PStr ''Investigate Line-3'')), (''status'', Lit (PStr ''open'')),
          (''created_at'', Datetime)]
         [(''updated_at'', Datetime)]],
      [MergeRel ''t'' ''TRACKS'' [] ''inc'']]"

definition seed_incidents :: "clause list" where
  "seed_incidents = concat incidents_file"

text \<open>
  Lines 179 to 215: a runbook and an agent action with its provenance. The semicolons of
  lines 182, 189, 195 and 214 make five statements of them.
\<close>

definition runbooks_file :: "clause list list" where
  "runbooks_file =
     [[MergeNode ''rb'' ''Runbook'' [(''id'', PStr ''RB-restore-pump'')]
         [(''name'', Lit (PStr ''Restore Pump P-7'')), (''risk'', Lit (PStr ''low'')),
          (''created_at'', Datetime)]
         [(''updated_at'', Datetime)]],
      [MergeNode ''svc'' ''Service'' [(''id'', PStr ''order-service'')] [] [],
       MergeRel ''rb'' ''APPLIES_TO'' [] ''svc'',
       MergeNode ''atype'' ''AlertType'' [(''id'', PStr ''vibration-high'')]
         [(''name'', Lit (PStr ''Vibration High'')), (''created_at'', Datetime)]
         [(''updated_at'', Datetime)]],
      [MergeRel ''rb'' ''APPLIES_TO'' [] ''atype'',
       MergeNode ''aa'' ''AgentAction'' [(''id'', PStr ''ACT-7001'')]
         [(''action'', Lit (PStr ''run_playbook'')), (''status'', Lit (PStr ''completed'')),
          (''created_at'', Datetime)]
         [(''updated_at'', Datetime)]],
      [MergeNode ''u'' ''User'' [(''id'', PStr ''sre-1'')] [] [],
       MergeRel ''aa'' ''EXECUTED_BY'' [] ''u'',
       MergeNode ''inc'' ''Incident'' [(''id'', PStr ''INC-1001'')] [] [],
       MergeRel ''aa'' ''RELATES_TO'' [] ''inc'',
       MergeNode ''m2'' ''Machine'' [(''id'', PStr ''P-7'')] [] [],
       MergeRel ''aa'' ''TARGETS'' [] ''m2'',
       MergeNode ''al'' ''Alert'' [(''id'', PStr ''ALERT-5001'')] [] [],
       MergeRel ''aa'' ''BASED_ON'' [] ''al'',
       MergeRel ''aa'' ''BASED_ON'' [] ''rb'',
       MergeNode ''approver'' ''User'' [(''id'', PStr ''lead-1'')]
         [(''name'', Lit (PStr ''SRE Lead'')), (''role'', Lit (PStr ''Lead'')),
          (''created_at'', Datetime)]
         [(''updated_at'', Datetime)]],
      [MergeRel ''aa'' ''APPROVED_BY'' [] ''approver'']]"

definition seed_runbooks :: "clause list" where
  "seed_runbooks = concat runbooks_file"

text \<open>
  Lines 216 to 235: the sensor attachment and the second, minimal service block, with no
  semicolon: one statement.
\<close>

definition seed_services :: "clause list" where
  "seed_services =
     [MergeNode ''s22'' ''Sensor'' [(''id'', PStr ''S-22'')] [] [],
      MergeNode ''m1'' ''Machine'' [(''id'', PStr ''M-42'')] [] [],
      MergeRel ''s22'' ''ATTACHED_TO'' [] ''m1'',
      MergeNode ''s'' ''Service'' [(''id'', PStr ''order-service''), (''name'', PStr ''Order Service'')] [] [],
      MergeNode ''db'' ''Database'' [(''id'', PStr ''orders-db''), (''name'', PStr ''Orders DB'')] [] [],
      MergeNode ''api'' ''API'' [(''id'', PStr ''payments-api''), (''name'', PStr ''Payments API'')] [] [],
      MergeNode ''srv'' ''Server'' [(''id'', PStr ''srv-1''), (''name'', PStr ''K8s Node 1'')] [] [],
      MergeNode ''t'' ''Team'' [(''id'', PStr ''team-checkout''), (''name'', PStr ''Checkout Team'')] [] [],
      MergeRel ''s'' ''OWNED_BY'' [] ''t'',
      MergeRel ''s'' ''USES_DB''
        [(''dependency_type'', PStr ''READS_FROM''), (''strength'', PStr ''critical'')] ''db'',
      MergeRel ''s'' ''CALLS_API''
        [(''dependency_type'', PStr ''USES''), (''strength'', PStr ''normal'')] ''api'',
      MergeRel ''s'' ''RUNS_ON'' [(''strength'', PStr ''critical'')] ''srv'',
      MergeNode ''topic'' ''Topic'' [(''id'', PStr ''orders.events''), (''name'', PStr ''orders.events'')] [] [],
      MergeRel ''s'' ''PUBLISHES_TO'' [] ''topic'']"

text \<open>All clauses of the seed, in the order of the file.\<close>

definition seed :: "clause list" where
  "seed = seed_nodes @ relationships_statement @ relationships_rest @ seed_incidents
           @ seed_runbooks @ seed_services"

text \<open>
  The node statements as a file: each clause of lines 44 to 97 ends with a semicolon and
  is a statement of its own.
\<close>

definition nodes_file :: "clause list list" where
  "nodes_file = map (\<lambda>c. [c]) seed_nodes"

definition load_nodes :: "(nat \<Rightarrow> nat) \<Rightarrow> graph \<Rightarrow> cypher_error + graph" where
  "load_nodes clock g = run_statements clock 0 nodes_file g"

text \<open>The statements of the whole seed, in the order of the script, and the seed loader.\<close>

definition seed_script :: "clause list list" where
  "seed_script = nodes_file @ [relationships_statement, relationships_rest] @ incidents_file
                  @ runbooks_file @ [seed_services]"

definition seed_loader :: "on_error \<Rightarrow> (nat \<Rightarrow> nat) \<Rightarrow> graph \<Rightarrow> graph \<times> cypher_error list" where
  "seed_loader policy clock g = load policy clock 0 seed_script g"

text \<open>
  The reading the comments of the seed go by: every clause run as it stands, one after
  the other, a variable naming the node of the pattern that bound it last, with no check
  of the statement as a whole. Clause \<open>k\<close> runs at time \<open>clock k\<close>.
\<close>

fun run_each_clause ::
  "(nat \<Rightarrow> nat) \<Rightarrow> nat \<Rightarrow> clause list \<Rightarrow> graph \<times> row list \<Rightarrow> graph \<times> row list" where
  "run_each_clause clock k [] s = s"
| "run_each_clause clock k (c # cs) s = run_each_clause clock (Suc k) cs (exec (clock k) c s)"

definition seed_each_clause :: "(nat \<Rightarrow> nat) \<Rightarrow> graph \<Rightarrow> graph \<times> row list" where
  "seed_each_clause clock g = run_each_clause clock 0 seed (g, [[]])"

text \<open>
  Everything of a node but its \<^verbatim>\<open>updated_at\<close>: the labels and the other properties
  (the descriptive fields and \<^verbatim>\<open>created_at\<close>), in the order they were set.
\<close>

definition descriptive :: "node \<Rightarrow> string list \<times> props" where
  "descriptive n = (node_labels n, filter (\<lambda>kv. fst kv \<noteq> ''updated_at'') (node_props n))"

fun on_match_of :: "clause \<Rightarrow> (string \<times> expr) list" where
  "on_match_of (MergeNode v l pat on_create on_match) = on_match"
| "on_match_of (MergeRel a t ps b) = []"

text \<open>The label and id every node pattern of a script declares.\<close>

fun declared_ids :: "clause list \<Rightarrow> (string \<times> string) list" where
  "declared_ids [] = []"
| "declared_ids (MergeNode v l pat on_create on_match # cs) =
     (case map_of pat ''id'' of
        Some (PStr i) \<Rightarrow> (l, i) # declared_ids cs
      | _ \<Rightarrow> declared_ids cs)"
| "declared_ids (MergeRel a t ps b # cs) = declared_ids cs"

definition has_id :: "string \<Rightarrow> string \<Rightarrow> node \<Rightarrow> bool" where
  "has_id l i n = (l \<in> set (node_labels n) \<and> map_of (node_props n) ''id'' = Some (PStr i))"

definition count_id :: "graph \<Rightarrow> string \<Rightarrow> string \<Rightarrow> nat" where
  "count_id g l i = length (filter (has_id l i) (nodes g))"

definition edge :: "graph \<Rightarrow> nat \<Rightarrow> string \<Rightarrow> nat \<Rightarrow> bool" where
  "edge g a t b = list_ex (\<lambda>r. rel_src r = a \<and> rel_type r = t \<and> rel_dst r = b) (rels g)"

fun rel_types :: "clause list \<Rightarrow> string list" where
  "rel_types [] = []"
| "rel_types (MergeNode v l pat on_create on_match # cs) = rel_types cs"
| "rel_types (MergeRel a t ps b # cs) = t # rel_types cs"

text \<open>
  An upsert by id: a node pattern on the \<^verbatim>\<open>id\<close> alone, whose \<^verbatim>\<open>ON CREATE\<close> branch does
  not assign the \<^verbatim>\<open>id\<close> and whose \<^verbatim>\<open>ON MATCH\<close> branch, if any, sets \<^verbatim>\<open>updated_at\<close> to
  \<^verbatim>\<open>datetime()\<close> and nothing else.
\<close>

fun upsert_by_id :: "clause \<Rightarrow> bool" where
  "upsert_by_id (MergeNode v l pat on_create on_match) =
     ((case pat of [(k, PStr i)] \<Rightarrow> k = ''id'' | _ \<Rightarrow> False)
      \<and> ''id'' \<notin> set (map fst on_create)
      \<and> (on_match = [] \<or> on_match = [(''updated_at'', Datetime)]))"
| "upsert_by_id (MergeRel a t ps b) = False"

text \<open>
  The frame of a run: the nodes that were there are still there, in place, and differ at
  most in \<^verbatim>\<open>updated_at\<close>.
\<close>

definition kept :: "graph \<Rightarrow> graph \<Rightarrow> bool" where
  "kept g g' =
     (length (nodes g) \<le> length (nodes g')
      \<and> map descriptive (take (length (nodes g)) (nodes g')) = map descriptive (nodes g))"

section \<open>Proofs\<close>

subsection \<open>Bounded newest-first lists\<close>

lemma foldl_bounded_front:
  "foldl (\<lambda>prev d. take w (f d # prev)) st ds = take w (rev (map f ds) @ st)"
  if "length st \<le> w"
  using that
proof (induction ds arbitrary: st)
  case Nil
  then show ?case by simp
next
  case (Cons d ds)
  have "length (take w (f d # st)) \<le> w" by simp
  from Cons.IH [OF this]
  have "foldl (\<lambda>prev d. take w (f d # prev)) (take w (f d # st)) ds
        = take w (rev (map f ds) @ take w (f d # st))" .
  also have "\<dots> = take w (rev (map f ds) @ f d # st)"
    by (simp add: take_Cons' min_def split: nat.splits)
  finally show ?case by simp
qed

lemma StreamTicker_after_eq:
  "StreamTicker_after parse ds = take 50 (rev (map (StreamTicker_entry parse) ds))"
proof -
  have "StreamTicker_onmessage parse = (\<lambda>prev d. take 50 (StreamTicker_entry parse d # prev))"
    by (simp add: fun_eq_iff StreamTicker_onmessage_def)
  then show ?thesis
    unfolding StreamTicker_after_def
    using foldl_bounded_front [of "[]" 50 "StreamTicker_entry parse" ds] by simp
qed

lemma EventTicker_entry_line:
  assumes "\<not> isl (EventTicker_entry parse str d)"
  shows "EventTicker_entry parse str d = Inr (EventTicker_line parse str d)"
  using assms by (cases "EventTicker_entry parse str d") (simp_all add: EventTicker_line_def)

lemma EventTicker_entry_no_throw:
  assumes "parse d = None
     \<or> (\<exists>v. parse d = Some v \<and> \<not> nullish v \<and> \<not> isl (str (opt_prop v ''topic''))
            \<and> \<not> isl (str (opt_prop v ''ts'')))"
  shows "\<not> isl (EventTicker_entry parse str d)"
  using assms by (auto simp add: EventTicker_entry_def get_prop_def split: sum.splits)

lemma EventTicker_feed_bounded:
  assumes "\<forall>d\<in>set ds. \<not> isl (EventTicker_entry parse str d)" and "length m \<le> 12"
  shows "EventTicker_feed parse str m ds = Inr (take 12 (rev (map (EventTicker_line parse str) ds) @ m))"
  using assms
proof (induction ds arbitrary: m)
  case Nil
  then show ?case by simp
next
  case (Cons d ds)
  from Cons.prems(1) have d: "EventTicker_entry parse str d = Inr (EventTicker_line parse str d)"
    by (simp add: EventTicker_entry_line)
  have len: "length (take 12 (EventTicker_line parse str d # m)) \<le> 12" by simp
  from Cons.prems(1) have rest: "\<forall>d\<in>set ds. \<not> isl (EventTicker_entry parse str d)" by simp
  have "EventTicker_feed parse str m (d # ds)
        = EventTicker_feed parse str (take 12 (EventTicker_line parse str d # m)) ds"
    by (simp add: EventTicker_onmessage_def d)
  also have "\<dots> = Inr (take 12 (rev (map (EventTicker_line parse str) ds)
                       @ take 12 (EventTicker_line parse str d # m)))"
    by (rule Cons.IH [OF rest len])
  also have "take 12 (rev (map (EventTicker_line parse str) ds)
                       @ take 12 (EventTicker_line parse str d # m))
             = take 12 (rev (map (EventTicker_line parse str) ds) @ EventTicker_line parse str d # m)"
    by (simp add: take_Cons' min_def split: nat.splits)
  finally show ?case by simp
qed

lemma EventTicker_after_eq:
  assumes "\<forall>d\<in>set ds. \<not> isl (EventTicker_entry parse str d)"
  shows "EventTicker_after parse str ds = Inr (take 12 (rev (map (EventTicker_line parse str) ds)))"
  using EventTicker_feed_bounded [OF assms, of "[]"] by (simp add: EventTicker_after_def)

lemma NotificationCenter_after_eq:
  "NotificationCenter_after ds = take 5 (rev ds)"
proof -
  have "NotificationCenter_onmessage = (\<lambda>prev d. take 5 ((\<lambda>x. x) d # prev))"
    by (simp add: fun_eq_iff NotificationCenter_onmessage_def)
  then show ?thesis
    unfolding NotificationCenter_after_def
    using foldl_bounded_front [of "[]" 5 "\<lambda>x. x" ds] by simp
qed

text \<open>
  After any sequence of messages the full ticker and the badge show the entries of the
  most recent messages, newest first, cut to their windows (50 and 5), and so does the
  compact ticker (12) as long as none of its updates throws (no payload parses to
  \<^verbatim>\<open>null\<close>, and the topic and time stamp convert to strings); after 60 messages they hold
  exactly 50, 5 and 12 entries.
\<close>

lemma stream_windows_newest_first:
  "StreamTicker_after parse ds
     = rev (map (StreamTicker_entry parse) (drop (length ds - 50) ds))
   \<and> NotificationCenter_after ds = rev (drop (length ds - 5) ds)
   \<and> ((\<forall>d\<in>set ds. \<not> isl (EventTicker_entry parse str d)) \<longrightarrow>
        EventTicker_after parse str ds
          = Inr (rev (map (EventTicker_line parse str) (drop (length ds - 12) ds))))
   \<and> (length ds = 60 \<longrightarrow>
        length (StreamTicker_after parse ds) = 50
      \<and> StreamTicker_after parse ds = rev (map (StreamTicker_entry parse) (drop 10 ds))
      \<and> length (NotificationCenter_after ds) = 5
      \<and> NotificationCenter_after ds = rev (drop 55 ds)
      \<and> ((\<forall>d\<in>set ds. \<not> isl (EventTicker_entry parse str d)) \<longrightarrow>
           EventTicker_after parse str ds
             = Inr (rev (map (EventTicker_line parse str) (drop 48 ds)))))"
  by (simp add: StreamTicker_after_eq EventTicker_after_eq NotificationCenter_after_eq
      take_map take_rev drop_map)

text \<open>
  Claim C4 at a failing sequence: 59 event messages and then the message \<^verbatim>\<open>null\<close>. The
  full ticker holds 50 entries and the badge 5, but the compact ticker holds no list of
  12: applying its update for the last message throws.
\<close>

theorem compact_ticker_throws_on_null_message:
  "length (replicate 59 ''{\"topic\":\"alerts\",\"ts\":1}'' @ [''null'']) = 60
   \<and> EventTicker_after
       (\<lambda>d. if d = ''null'' then Some JNull
            else if d = ''{\"topic\":\"alerts\",\"ts\":1}''
            then Some (JObj [(''topic'', JStr ''alerts''), (''ts'', JNum 1)])
            else None)
       (\<lambda>v. case v of JStr s \<Rightarrow> Inr s | _ \<Rightarrow> Inr ''1'')
       (replicate 59 ''{\"topic\":\"alerts\",\"ts\":1}'' @ [''null''])
     = Inl read_prop_error
   \<and> EventTicker_after
       (\<lambda>d. if d = ''null'' then Some JNull
            else if d = ''{\"topic\":\"alerts\",\"ts\":1}''
            then Some (JObj [(''topic'', JStr ''alerts''), (''ts'', JNum 1)])
            else None)
       (\<lambda>v. case v of JStr s \<Rightarrow> Inr s | _ \<Rightarrow> Inr ''1'')
       (replicate 59 ''{\"topic\":\"alerts\",\"ts\":1}'')
     = Inr (replicate 12 ''alerts @ 1'')"
  by code_simp

subsection \<open>The generic client\<close>

lemma sublist_status_error:
  "sublist (show_nat (status res)) (message (status_error res))"
  "sublist (statusText res) (message (status_error res))"
proof -
  show "sublist (show_nat (status res)) (message (status_error res))"
    by (simp add: status_error_def)
  have "message (status_error res) = (show_nat (status res) @ '' '') @ statusText res @ []"
    by (simp add: status_error_def)
  then show "sublist (statusText res) (message (status_error res))"
    by (metis sublist_appendI)
qed

text \<open>
  Claim C2. Whenever the request gets a response that is not 2xx, \<^verbatim>\<open>getJSON\<close> and
  \<^verbatim>\<open>postJSON\<close> throw an error whose message is the status code, a space and the
  status text (so it contains both; a 404 gives a message containing ``404''); on a 2xx
  response whose body decodes they return the decoded value as it is.
\<close>

theorem generic_client_status_errors:
  "(net \<lparr>req_method = ''GET'', req_url = lib_API_BASE @ path, req_body = None\<rparr> = Responded res
      \<longrightarrow> (\<not> ok res \<longrightarrow>
             getJSON net path = Inl (status_error res)
           \<and> sublist (show_nat (status res)) (message (status_error res))
           \<and> sublist (statusText res) (message (status_error res))
           \<and> (status res = 404 \<longrightarrow> sublist ''404'' (message (status_error res))))
        \<and> (ok res \<longrightarrow> json res = Inr v \<longrightarrow> getJSON net path = Inr v))
   \<and> (net \<lparr>req_method = ''POST'', req_url = lib_API_BASE @ path, req_body = Some body\<rparr>
        = Responded res
      \<longrightarrow> (\<not> ok res \<longrightarrow>
             postJSON net path body = Inl (status_error res)
           \<and> sublist (show_nat (status res)) (message (status_error res))
           \<and> sublist (statusText res) (message (status_error res)))
        \<and> (ok res \<longrightarrow> json res = Inr v \<longrightarrow> postJSON net path body = Inr v))"
proof -
  have n404: "show_nat 404 = ''404''"
    by code_simp
  have "status res = 404 \<longrightarrow> sublist ''404'' (message (status_error res))"
    using sublist_status_error(1) [of res] n404 by auto
  then show ?thesis
    by (simp add: getJSON_def postJSON_def sublist_status_error)
qed

theorem generic_client_status_errors_witness:
  "getJSON (\<lambda>r. Responded \<lparr>status = 404, statusText = ''Not Found'',
              json = Inl (JsError ''SyntaxError'' ''Unexpected token''), text_body = ''Not Found''\<rparr>)
       ''/graph/topology-summary''
     = Inl (JsError ''Error'' ''404 Not Found'')
   \<and> sublist ''404'' (message (JsError ''Error'' ''404 Not Found''))
   \<and> postJSON (\<lambda>r. Responded \<lparr>status = 200, statusText = ''OK'',
              json = Inr (JObj [(''reply'', JStr ''hi'')]), text_body = []\<rparr>)
       ''/agent/query'' (JObj [(''message'', JStr ''q'')])
     = Inr (JObj [(''reply'', JStr ''hi'')])"
proof -
  let ?r404 = "\<lparr>status = 404, statusText = ''Not Found'',
              json = Inl (JsError ''SyntaxError'' ''Unexpected token''), text_body = ''Not Found''\<rparr>"
  let ?r200 = "\<lparr>status = 200, statusText = ''OK'',
              json = Inr (JObj [(''reply'', JStr ''hi'')]), text_body = []\<rparr>"
  have n404: "show_nat 404 = ''404''"
    by code_simp
  have e404: "status_error ?r404 = JsError ''Error'' ''404 Not Found''"
    by (simp add: status_error_def n404)
  have a: "\<not> ok ?r404" and b: "ok ?r200"
    by (simp_all add: ok_def)
  from generic_client_status_errors
    [where net = "\<lambda>r. Responded ?r404" and res = ?r404 and path = "''/graph/topology-summary''"]
    a e404
  have 1: "getJSON (\<lambda>r. Responded ?r404) ''/graph/topology-summary''
             = Inl (JsError ''Error'' ''404 Not Found'')
           \<and> sublist ''404'' (message (JsError ''Error'' ''404 Not Found''))"
    by simp
  from generic_client_status_errors
    [where net = "\<lambda>r. Responded ?r200" and res = ?r200 and path = "''/agent/query''"
       and body = "JObj [(''message'', JStr ''q'')]" and v = "JObj [(''reply'', JStr ''hi'')]"]
    b
  have 2: "postJSON (\<lambda>r. Responded ?r200) ''/agent/query'' (JObj [(''message'', JStr ''q'')])
             = Inr (JObj [(''reply'', JStr ''hi'')])"
    by simp
  from 1 2 show ?thesis by simp
qed

text \<open>
  The helpers of the typed client do the same: on a response that is not 2xx they throw an
  error whose message starts with the status code, a space and the status text.
\<close>

lemma typed_client_status_errors:
  assumes "\<not> ok res"
  shows "net \<lparr>req_method = ''GET'',
               req_url = base @ path @ (case params of None \<Rightarrow> [] | Some ps \<Rightarrow> ''?'' @ qs ps),
               req_body = None\<rparr> = Responded res
           \<Longrightarrow> index_get net base qs path params = Inl (status_error res)"
    and "net \<lparr>req_method = ''POST'', req_url = base @ path, req_body = body\<rparr> = Responded res
           \<Longrightarrow> \<exists>e. index_post net base path body = Inl e
                 \<and> prefix (show_nat (status res) @ '' '' @ statusText res) (message e)"
  using assms by (simp_all add: index_get_def index_post_def)

subsection \<open>Approval target resolution\<close>

lemma first_included_array:
  "first_included (JArr ls) ts = Inr (find (\<lambda>t. JStr t \<in> set ls) ts)"
  by (induction ts) simp_all

lemma find_first_match:
  "find P (pre @ r # post) = Some r" if "\<forall>x\<in>set pre. \<not> P x" and "P r"
  using that by (induction pre) simp_all

lemma resolve_exact_match:
  assumes res: "fetchJSON search = Inr res"
    and results: "opt_prop res ''results'' = JArr (pre @ r # post)"
    and pre: "\<forall>x\<in>set pre. \<not> exact_match eid x"
    and r: "exact_match eid r"
    and ls: "js_or (opt_prop r ''labels'') (JArr []) = JArr ls"
  shows "resolveEntityTypeBySearch search eid
            = (case find (\<lambda>t. JStr t \<in> set ls) priority_labels of
                 Some t \<Rightarrow> JStr t
               | None \<Rightarrow> (case ls of [] \<Rightarrow> JNull | l # _ \<Rightarrow> js_coalesce l JNull))"
proof -
  have hit: "find (exact_match eid) (pre @ r # post) = Some r"
    using pre r by (rule find_first_match)
  have obj: "truthy r"
    using r by (cases r) (simp_all add: exact_match_def js_or_def)
  have "resolveEntityTypeBySearch search eid
          = (case first_included (JArr ls) priority_labels of
               Inl e \<Rightarrow> JNull
             | Inr (Some t) \<Rightarrow> JStr t
             | Inr None \<Rightarrow> js_coalesce (index0 (JArr ls)) JNull)"
    using hit obj ls
    by (simp add: resolveEntityTypeBySearch_def res results js_or_def [of r] Let_def
        split: sum.splits option.splits)
  then show ?thesis
    by (cases ls) (simp_all add: first_included_array js_coalesce_def nullish_def
        split: option.splits)
qed

text \<open>
  Claim C1. When the search response lists a result whose \<^verbatim>\<open>props.id\<close>, \<^verbatim>\<open>props.name\<close>
  or \<^verbatim>\<open>props.title\<close> is exactly the action's \<^verbatim>\<open>entity_id\<close>, the first such result is the
  hit, and the resolution returns the first label of the priority list Service, Database,
  API, Server, Topic, Machine, Line, Plant, Sensor, Team (in this order) that is among the
  hit's labels, or else the hit's first label (\<^verbatim>\<open>null\<close> when it has none); the approval
  flow takes that value unless it is falsy. When the search lists no result the resolution
  is \<^verbatim>\<open>null\<close> and the execute request targets entity type ``Service''.
\<close>

theorem approval_target_resolution:
  "(fetchJSON search = Inr res
      \<longrightarrow> opt_prop res ''results'' = JArr (pre @ r # post)
      \<longrightarrow> (\<forall>x\<in>set pre. \<not> exact_match (entity_id row) x)
      \<longrightarrow> exact_match (entity_id row) r
      \<longrightarrow> js_or (opt_prop r ''labels'') (JArr []) = JArr ls
      \<longrightarrow> resolveEntityTypeBySearch search (entity_id row)
            = (case find (\<lambda>t. JStr t \<in> set ls)
                      [''Service'', ''Database'', ''API'', ''Server'', ''Topic'',
                       ''Machine'', ''Line'', ''Plant'', ''Sensor'', ''Team''] of
                 Some t \<Rightarrow> JStr t
               | None \<Rightarrow> (case ls of [] \<Rightarrow> JNull | l # _ \<Rightarrow> js_coalesce l JNull))
          \<and> approve_entityType search row
            = js_or (resolveEntityTypeBySearch search (entity_id row)) (JStr ''Service''))
   \<and> (fetchJSON search = Inr res
      \<longrightarrow> opt_prop res ''results'' = JArr []
      \<longrightarrow> resolveEntityTypeBySearch search (entity_id row) = JNull
          \<and> approve_entityType search row = JStr ''Service''
          \<and> opt_prop (the (req_body (execute_request API enc row (approve_entityType search row))))
               ''targets''
            = JArr [JObj [(''entity_type'', JStr ''Service''),
                          (''entity_id'', JStr (entity_id row))]])"
proof (intro conjI impI)
  assume res: "fetchJSON search = Inr res"
    and results: "opt_prop res ''results'' = JArr (pre @ r # post)"
    and pre: "\<forall>x\<in>set pre. \<not> exact_match (entity_id row) x"
    and r: "exact_match (entity_id row) r"
    and ls: "js_or (opt_prop r ''labels'') (JArr []) = JArr ls"
  from resolve_exact_match [OF res results pre r ls]
  show "resolveEntityTypeBySearch search (entity_id row)
            = (case find (\<lambda>t. JStr t \<in> set ls)
                      [''Service'', ''Database'', ''API'', ''Server'', ''Topic'',
                       ''Machine'', ''Line'', ''Plant'', ''Sensor'', ''Team''] of
                 Some t \<Rightarrow> JStr t
               | None \<Rightarrow> (case ls of [] \<Rightarrow> JNull | l # _ \<Rightarrow> js_coalesce l JNull))"
    by (simp only: priority_labels_def)
  show "approve_entityType search row
            = js_or (resolveEntityTypeBySearch search (entity_id row)) (JStr ''Service'')"
    by (simp add: approve_entityType_def)
next
  assume res: "fetchJSON search = Inr res"
    and results: "opt_prop res ''results'' = JArr []"
  show null: "resolveEntityTypeBySearch search (entity_id row) = JNull"
    by (simp add: resolveEntityTypeBySearch_def res results)
  then show service: "approve_entityType search row = JStr ''Service''"
    by (simp add: approve_entityType_def js_or_def)
  then show "opt_prop (the (req_body (execute_request API enc row (approve_entityType search row))))
               ''targets''
            = JArr [JObj [(''entity_type'', JStr ''Service''),
                          (''entity_id'', JStr (entity_id row))]]"
    by (simp add: execute_request_def)
qed

text \<open>
  An exact match on the id that is labelled Asset, Line and Machine resolves to Machine:
  the order of the priority list decides, not the order of the labels. For labels Machine
  and Service it is Service.
\<close>

theorem approval_target_resolution_witness:
  "resolveEntityTypeBySearch
     (Responded \<lparr>status = 200, statusText = ''OK'',
        json = Inr (JObj [(''results'', JArr
          [JObj [(''labels'', JArr [JStr ''Service'']),
                 (''props'', JObj [(''id'', JStr ''M-420''), (''name'', JStr ''Metrics 420'')])],
           JObj [(''labels'', JArr [JStr ''Asset'', JStr ''Line'', JStr ''Machine'']),
                 (''props'', JObj [(''id'', JStr ''M-42''), (''name'', JStr ''Cutter M-42'')])]])]),
        text_body = []\<rparr>)
     ''M-42'' = JStr ''Machine''
   \<and> approve_entityType
       (Responded \<lparr>status = 200, statusText = ''OK'',
          json = Inr (JObj [(''results'', JArr
            [JObj [(''labels'', JArr [JStr ''Machine'', JStr ''Service'']),
                   (''props'', JObj [(''name'', JStr ''M-42'')])]])]),
          text_body = []\<rparr>)
       \<lparr>action_id = ''ACT-1'', runbook_id = ''RB-restore-pump'', action_type = ''run_playbook'',
        incident_id = None, entity_id = ''M-42'', action_status = ''pending_approval'',
        triggered_by = None, approved_by = None, reasoning = None, created_at = None\<rparr>
     = JStr ''Service''
   \<and> approve_entityType
       (Responded \<lparr>status = 200, statusText = ''OK'',
          json = Inr (JObj [(''results'', JArr [])]), text_body = []\<rparr>)
       \<lparr>action_id = ''ACT-1'', runbook_id = ''RB-restore-pump'', action_type = ''run_playbook'',
        incident_id = None, entity_id = ''M-42'', action_status = ''pending_approval'',
        triggered_by = None, approved_by = None, reasoning = None, created_at = None\<rparr>
     = JStr ''Service''"
proof -
  let ?row = "\<lparr>action_id = ''ACT-1'', runbook_id = ''RB-restore-pump'', action_type = ''run_playbook'',
        incident_id = None, entity_id = ''M-42'', action_status = ''pending_approval'',
        triggered_by = None, approved_by = None, reasoning = None, created_at = None\<rparr>"
  let ?r1 = "JObj [(''labels'', JArr [JStr ''Service'']),
                 (''props'', JObj [(''id'', JStr ''M-420''), (''name'', JStr ''Metrics 420'')])]"
  let ?r2 = "JObj [(''labels'', JArr [JStr ''Asset'', JStr ''Line'', JStr ''Machine'']),
                 (''props'', JObj [(''id'', JStr ''M-42''), (''name'', JStr ''Cutter M-42'')])]"
  let ?r3 = "JObj [(''labels'', JArr [JStr ''Machine'', JStr ''Service'']),
                   (''props'', JObj [(''name'', JStr ''M-42'')])]"
  let ?res = "JObj [(''results'', JArr [?r1, ?r2])]"
  let ?search = "Responded \<lparr>status = 200, statusText = ''OK'', json = Inr ?res, text_body = []\<rparr>"
  let ?res3 = "JObj [(''results'', JArr [?r3])]"
  let ?search3 = "Responded \<lparr>status = 200, statusText = ''OK'', json = Inr ?res3, text_body = []\<rparr>"
  let ?none = "JObj [(''results'', JArr [])]"
  let ?empty = "Responded \<lparr>status = 200, statusText = ''OK'', json = Inr ?none, text_body = []\<rparr>"
  have a: "fetchJSON ?search = Inr ?res" and a3: "fetchJSON ?search3 = Inr ?res3"
    and a': "fetchJSON ?empty = Inr ?none"
    by (simp_all add: fetchJSON_def ok_def)
  have b: "opt_prop ?res ''results'' = JArr ([?r1] @ ?r2 # [])"
    and b3: "opt_prop ?res3 ''results'' = JArr ([] @ ?r3 # [])"
    and b': "opt_prop ?none ''results'' = JArr []"
    by simp_all
  have c: "\<forall>x\<in>set [?r1]. \<not> exact_match (entity_id ?row) x"
    by (simp add: exact_match_def js_or_def)
  have d: "exact_match (entity_id ?row) ?r2" and d3: "exact_match (entity_id ?row) ?r3"
    by (simp_all add: exact_match_def js_or_def)
  have e: "js_or (opt_prop ?r2 ''labels'') (JArr [])
             = JArr [JStr ''Asset'', JStr ''Line'', JStr ''Machine'']"
    and e3: "js_or (opt_prop ?r3 ''labels'') (JArr []) = JArr [JStr ''Machine'', JStr ''Service'']"
    by (simp_all add: js_or_def)
  from approval_target_resolution
    [where search = ?search and res = ?res and pre = "[?r1]" and r = ?r2 and post = "[]"
       and row = ?row and ls = "[JStr ''Asset'', JStr ''Line'', JStr ''Machine'']"]
    a b c d e
  have 1: "resolveEntityTypeBySearch ?search ''M-42'' = JStr ''Machine''"
    by simp
  from approval_target_resolution
    [where search = ?search3 and res = ?res3 and pre = "[]" and r = ?r3 and post = "[]"
       and row = ?row and ls = "[JStr ''Machine'', JStr ''Service'']"]
    a3 b3 d3 e3
  have 3: "approve_entityType ?search3 ?row = JStr ''Service''"
    by (simp add: js_or_def)
  from approval_target_resolution
    [where search = ?empty and res = ?none and row = ?row] a' b'
  have 2: "approve_entityType ?empty ?row = JStr ''Service''"
    by simp
  from 1 3 2 show ?thesis by simp
qed

subsection \<open>The API base address, module by module\<close>

text \<open>
  With an override and a build-time value both set, neither client module of the API
  layer resolves the base address the way the specification words it. Nor does the
  proposal list in a bundle that provides no \<^verbatim>\<open>import.meta.env\<close> object at run time: with
  a build-time value and no override it uses the default.
\<close>

theorem api_base_not_three_tier_everywhere:
  "JStr lib_API_BASE
     \<noteq> spec_API_base \<lparr>window_defined = True, window_API_BASE = JStr ''http://ops.example:9000'',
                       import_meta_env = env_object (Some ''http://api.example:8080''),
                       VITE_API_BASE = Some ''http://api.example:8080''\<rparr>
   \<and> index_API_BASE \<lparr>window_defined = True, window_API_BASE = JStr ''http://ops.example:9000'',
                       import_meta_env = env_object (Some ''http://api.example:8080''),
                       VITE_API_BASE = Some ''http://api.example:8080''\<rparr>
     \<noteq> spec_API_base \<lparr>window_defined = True, window_API_BASE = JStr ''http://ops.example:9000'',
                       import_meta_env = env_object (Some ''http://api.example:8080''),
                       VITE_API_BASE = Some ''http://api.example:8080''\<rparr>
   \<and> ProposedActions_API \<lparr>window_defined = True, window_API_BASE = JUndefined,
                       import_meta_env = JUndefined,
                       VITE_API_BASE = Some ''http://api.example:8080''\<rparr>
     \<noteq> spec_API_base \<lparr>window_defined = True, window_API_BASE = JUndefined,
                       import_meta_env = JUndefined,
                       VITE_API_BASE = Some ''http://api.example:8080''\<rparr>"
  by (simp add: lib_API_BASE_def spec_API_base_def index_API_BASE_def js_or_def js_and_def
      replace_trailing_slash_def ProposedActions_API_def runtime_env_value_def env_value_def)

text \<open>
  Claim C5, amended. The proposal list and the audit log take the first truthy value of:
  the runtime override \<^verbatim>\<open>window.__API_BASE__\<close>; the property \<^verbatim>\<open>VITE_API_BASE\<close> of the
  object found at \<^verbatim>\<open>import.meta.env\<close> when the module runs; the default
  \<^verbatim>\<open>http://localhost:8000\<close>. Where the bundle provides no such object the second step
  finds nothing, whatever the build-time value, and the component goes from the override
  to the default; where the object holds the build-time value these are the three steps
  of the specification. The typed client has no runtime override: it takes the
  build-time value with one trailing slash dropped, and the default when that is absent
  or empty. The generic client always uses \<^verbatim>\<open>http://localhost:8000\<close>.
\<close>

theorem api_base_resolution_per_module:
  "ProposedActions_API c
     = (if window_defined c \<and> truthy (window_API_BASE c) then window_API_BASE c
        else if truthy (runtime_env_value c) then runtime_env_value c
        else JStr ''http://localhost:8000'')
   \<and> AgentActionsAudit_API c = ProposedActions_API c
   \<and> (import_meta_env c = JUndefined
        \<longrightarrow> runtime_env_value c = JUndefined
          \<and> ProposedActions_API c
            = (if window_defined c \<and> truthy (window_API_BASE c) then window_API_BASE c
               else JStr ''http://localhost:8000''))
   \<and> (import_meta_env c = env_object (VITE_API_BASE c)
        \<longrightarrow> ProposedActions_API c = spec_API_base c)
   \<and> index_API_BASE c
       = (case VITE_API_BASE c of
            None \<Rightarrow> JStr ''http://localhost:8000''
          | Some s \<Rightarrow>
              if replace_trailing_slash s = [] then JStr ''http://localhost:8000''
              else JStr (replace_trailing_slash s))
   \<and> lib_API_BASE = ''http://localhost:8000''"
  by (auto simp add: ProposedActions_API_def AgentActionsAudit_API_def spec_API_base_def
      index_API_BASE_def lib_API_BASE_def js_or_def js_and_def env_value_def
      runtime_env_value_def env_object_def
      split: option.splits)

theorem api_base_resolution_per_module_witness:
  "ProposedActions_API \<lparr>window_defined = True, window_API_BASE = JUndefined,
                       import_meta_env = JUndefined,
                       VITE_API_BASE = Some ''http://api.example:8080/''\<rparr>
     = JStr ''http://localhost:8000''
   \<and> ProposedActions_API \<lparr>window_defined = True, window_API_BASE = JUndefined,
                       import_meta_env = env_object (Some ''http://api.example:8080/''),
                       VITE_API_BASE = Some ''http://api.example:8080/''\<rparr>
     = JStr ''http://api.example:8080/''
   \<and> index_API_BASE \<lparr>window_defined = True, window_API_BASE = JUndefined,
                       import_meta_env = JUndefined,
                       VITE_API_BASE = Some ''http://api.example:8080/''\<rparr>
     = JStr ''http://api.example:8080''"
proof -
  let ?c1 = "\<lparr>window_defined = True, window_API_BASE = JUndefined,
                       import_meta_env = JUndefined,
                       VITE_API_BASE = Some ''http://api.example:8080/''\<rparr>"
  let ?c2 = "\<lparr>window_defined = True, window_API_BASE = JUndefined,
                       import_meta_env = env_object (Some ''http://api.example:8080/''),
                       VITE_API_BASE = Some ''http://api.example:8080/''\<rparr>"
  have 1: "ProposedActions_API ?c1 = JStr ''http://localhost:8000''"
    using api_base_resolution_per_module [of ?c1, THEN conjunct2, THEN conjunct2, THEN conjunct1]
    by simp
  have 2: "ProposedActions_API ?c2 = JStr ''http://api.example:8080/''"
    using api_base_resolution_per_module
      [of ?c2, THEN conjunct2, THEN conjunct2, THEN conjunct2, THEN conjunct1]
    by (simp add: spec_API_base_def env_value_def)
  have 3: "index_API_BASE ?c1 = JStr ''http://api.example:8080''"
    using api_base_resolution_per_module
      [of ?c1, THEN conjunct2, THEN conjunct2, THEN conjunct2, THEN conjunct2, THEN conjunct1]
    by (simp add: replace_trailing_slash_def)
  from 1 2 3 show ?thesis by simp
qed

subsection \<open>Loading rows: response shapes and failures\<close>

lemma fetchJSON_body:
  "fetchJSON (Responded (r\<lparr>json := Inr v\<rparr>)) = (if ok r then Inr v else Inl (status_error r))"
  by (simp add: fetchJSON_def ok_def status_error_def)

text \<open>
  Claim C7. For the same list of actions, a response whose body is an object with the
  list under \<^verbatim>\<open>items\<close> and a response whose body is the bare list leave the proposal
  list in the same state, and the audit log too; so each component renders the same rows
  for both, and on a 2xx response these rows are the list.
\<close>

theorem dual_shape_same_rows:
  "opt_prop wrapped ''items'' = JArr xs \<longrightarrow>
     ProposedActions_load st (Responded (r\<lparr>json := Inr wrapped\<rparr>))
       = ProposedActions_load st (Responded (r\<lparr>json := Inr (JArr xs)\<rparr>))
   \<and> ProposedActions_render (ProposedActions_load st (Responded (r\<lparr>json := Inr wrapped\<rparr>)))
       = ProposedActions_render (ProposedActions_load st (Responded (r\<lparr>json := Inr (JArr xs)\<rparr>)))
   \<and> AgentActionsAudit_load ast (Responded (r\<lparr>json := Inr wrapped\<rparr>))
       = AgentActionsAudit_load ast (Responded (r\<lparr>json := Inr (JArr xs)\<rparr>))
   \<and> AgentActionsAudit_render (AgentActionsAudit_load ast (Responded (r\<lparr>json := Inr wrapped\<rparr>)))
       = AgentActionsAudit_render
           (AgentActionsAudit_load ast (Responded (r\<lparr>json := Inr (JArr xs)\<rparr>)))
   \<and> (ok r \<longrightarrow>
          rows (ProposedActions_load st (Responded (r\<lparr>json := Inr wrapped\<rparr>))) = JArr xs
        \<and> audit_rows (AgentActionsAudit_load ast (Responded (r\<lparr>json := Inr wrapped\<rparr>)))
            = JArr xs)"
proof
  assume items: "opt_prop wrapped ''items'' = JArr xs"
  have p: "ProposedActions_load st (Responded (r\<lparr>json := Inr wrapped\<rparr>))
       = ProposedActions_load st (Responded (r\<lparr>json := Inr (JArr xs)\<rparr>))"
    unfolding ProposedActions_load_def fetchJSON_body
    by (simp add: items js_coalesce_def nullish_def)
  have a: "AgentActionsAudit_load ast (Responded (r\<lparr>json := Inr wrapped\<rparr>))
       = AgentActionsAudit_load ast (Responded (r\<lparr>json := Inr (JArr xs)\<rparr>))"
    unfolding AgentActionsAudit_load_def fetchJSON_body
    by (simp add: items js_coalesce_def nullish_def)
  have ok: "ok r \<longrightarrow>
          rows (ProposedActions_load st (Responded (r\<lparr>json := Inr wrapped\<rparr>))) = JArr xs
        \<and> audit_rows (AgentActionsAudit_load ast (Responded (r\<lparr>json := Inr wrapped\<rparr>)))
            = JArr xs"
    unfolding ProposedActions_load_def AgentActionsAudit_load_def fetchJSON_body
    by (simp add: items js_coalesce_def nullish_def)
  from p a ok show "ProposedActions_load st (Responded (r\<lparr>json := Inr wrapped\<rparr>))
       = ProposedActions_load st (Responded (r\<lparr>json := Inr (JArr xs)\<rparr>))
   \<and> ProposedActions_render (ProposedActions_load st (Responded (r\<lparr>json := Inr wrapped\<rparr>)))
       = ProposedActions_render (ProposedActions_load st (Responded (r\<lparr>json := Inr (JArr xs)\<rparr>)))
   \<and> AgentActionsAudit_load ast (Responded (r\<lparr>json := Inr wrapped\<rparr>))
       = AgentActionsAudit_load ast (Responded (r\<lparr>json := Inr (JArr xs)\<rparr>))
   \<and> AgentActionsAudit_render (AgentActionsAudit_load ast (Responded (r\<lparr>json := Inr wrapped\<rparr>)))
       = AgentActionsAudit_render
           (AgentActionsAudit_load ast (Responded (r\<lparr>json := Inr (JArr xs)\<rparr>)))
   \<and> (ok r \<longrightarrow>
          rows (ProposedActions_load st (Responded (r\<lparr>json := Inr wrapped\<rparr>))) = JArr xs
        \<and> audit_rows (AgentActionsAudit_load ast (Responded (r\<lparr>json := Inr wrapped\<rparr>)))
            = JArr xs)"
    by simp
qed

theorem dual_shape_same_rows_witness:
  "ProposedActions_render
     (ProposedActions_load ProposedActions_init
        (Responded \<lparr>status = 200, statusText = ''OK'',
           json = Inr (JObj [(''items'', JArr [JObj [(''action_id'', JStr ''ACT-7001''),
                      (''runbook_id'', JStr ''RB-restore-pump''), (''entity_id'', JStr ''P-7'')]])]),
           text_body = []\<rparr>))
   = Inr (None, Rows [\<lparr>row_key = JStr ''ACT-7001'',
            row_cells = [JStr ''ACT-7001'', JStr ''RB-restore-pump'', JStr ''P-7'', JStr ''-'', JStr ''-''],
            button_disabled = False, button_text = ''Approve & Execute''\<rparr>])
   \<and> ProposedActions_render
     (ProposedActions_load ProposedActions_init
        (Responded \<lparr>status = 200, statusText = ''OK'',
           json = Inr (JArr [JObj [(''action_id'', JStr ''ACT-7001''),
                      (''runbook_id'', JStr ''RB-restore-pump''), (''entity_id'', JStr ''P-7'')]]),
           text_body = []\<rparr>))
   = Inr (None, Rows [\<lparr>row_key = JStr ''ACT-7001'',
            row_cells = [JStr ''ACT-7001'', JStr ''RB-restore-pump'', JStr ''P-7'', JStr ''-'', JStr ''-''],
            button_disabled = False, button_text = ''Approve & Execute''\<rparr>])"
proof -
  let ?xs = "[JObj [(''action_id'', JStr ''ACT-7001''),
                      (''runbook_id'', JStr ''RB-restore-pump''), (''entity_id'', JStr ''P-7'')]]"
  let ?r = "\<lparr>status = 200, statusText = ''OK'', json = Inl (JsError [] []), text_body = []\<rparr>"
  have items: "opt_prop (JObj [(''items'', JArr ?xs)]) ''items'' = JArr ?xs"
    by simp
  have bare: "ProposedActions_render
     (ProposedActions_load ProposedActions_init (Responded (?r\<lparr>json := Inr (JArr ?xs)\<rparr>)))
   = Inr (None, Rows [\<lparr>row_key = JStr ''ACT-7001'',
            row_cells = [JStr ''ACT-7001'', JStr ''RB-restore-pump'', JStr ''P-7'', JStr ''-'', JStr ''-''],
            button_disabled = False, button_text = ''Approve & Execute''\<rparr>])"
    by (simp add: ProposedActions_render_def ProposedActions_load_def ProposedActions_init_def
        fetchJSON_def ok_def js_coalesce_def nullish_def strict_eq_def js_map_def
        ProposedActions_tr_def get_prop_def js_or_def)
  from dual_shape_same_rows
    [where wrapped = "JObj [(''items'', JArr ?xs)]" and xs = ?xs and r = ?r
       and st = ProposedActions_init and ast = AgentActionsAudit_init]
    items bare
  show ?thesis by simp
qed


text \<open>
  Claim C10. A load that fails (the request is rejected, the status is not 2xx, or the
  body does not decode) leaves each component with the error text set and the rows
  replaced by the empty list, whatever rows it held. An approval whose execute request
  fails leaves the rows as they were.
\<close>

theorem failed_load_clears_rows:
  "(fetchJSON out = Inl e \<longrightarrow>
      ProposedActions_load st out
        = st\<lparr>err := message_or e ''Failed to load proposed actions'', rows := JArr []\<rparr>
    \<and> AgentActionsAudit_load ast out
        = ast\<lparr>audit_busy := False, audit_err := message_or e ''Failed to load agent actions'',
               audit_rows := JArr []\<rparr>)
   \<and> ((\<exists>e'. net (execute_request API enc row (approve_entityType search row)) = Rejected e')
        \<or> (\<exists>r. net (execute_request API enc row (approve_entityType search row)) = Responded r
                \<and> \<not> ok r)
      \<longrightarrow> rows (approve API enc st row search net reload) = rows st
          \<and> err (approve API enc st row search net reload) \<noteq> [])"
proof (intro conjI impI)
  assume "fetchJSON out = Inl e"
  then show "ProposedActions_load st out
        = st\<lparr>err := message_or e ''Failed to load proposed actions'', rows := JArr []\<rparr>"
    and "AgentActionsAudit_load ast out
        = ast\<lparr>audit_busy := False, audit_err := message_or e ''Failed to load agent actions'',
               audit_rows := JArr []\<rparr>"
    by (simp_all add: ProposedActions_load_def AgentActionsAudit_load_def)
next
  assume failed:
    "(\<exists>e'. net (execute_request API enc row (approve_entityType search row)) = Rejected e')
        \<or> (\<exists>r. net (execute_request API enc row (approve_entityType search row)) = Responded r
                \<and> \<not> ok r)"
  then show "rows (approve API enc st row search net reload) = rows st"
    by (auto simp add: approve_def Let_def)
  from failed show "err (approve API enc st row search net reload) \<noteq> []"
    by (auto simp add: approve_def Let_def message_or_def split: if_splits)
qed

theorem failed_load_clears_rows_witness:
  "ProposedActions_load
     \<lparr>rows = JArr [JObj [(''action_id'', JStr ''ACT-7001'')]], busyId = JNull, err = []\<rparr>
     (Rejected (JsError ''TypeError'' ''Failed to fetch''))
   = \<lparr>rows = JArr [], busyId = JNull, err = ''Failed to fetch''\<rparr>
   \<and> rows (approve ''http://localhost:8000'' (\<lambda>s. s)
       \<lparr>rows = JArr [JObj [(''action_id'', JStr ''ACT-7001'')]], busyId = JNull, err = []\<rparr>
       \<lparr>action_id = ''ACT-7001'', runbook_id = ''RB-restore-pump'', action_type = ''run_playbook'',
        incident_id = None, entity_id = ''P-7'', action_status = ''pending_approval'',
        triggered_by = None, approved_by = None, reasoning = None, created_at = None\<rparr>
       (Rejected (JsError ''TypeError'' ''Failed to fetch''))
       (\<lambda>q. Rejected (JsError ''TypeError'' ''Failed to fetch''))
       (Rejected (JsError ''TypeError'' ''Failed to fetch'')))
     = JArr [JObj [(''action_id'', JStr ''ACT-7001'')]]"
proof -
  let ?st = "\<lparr>rows = JArr [JObj [(''action_id'', JStr ''ACT-7001'')]], busyId = JNull, err = []\<rparr>"
  let ?e = "JsError ''TypeError'' ''Failed to fetch''"
  have a: "fetchJSON (Rejected ?e) = Inl ?e"
    by (simp add: fetchJSON_def)
  from failed_load_clears_rows
    [where out = "Rejected ?e" and e = ?e and st = ?st and net = "\<lambda>q. Rejected ?e"
       and API = "''http://localhost:8000''" and enc = "\<lambda>s. s" and search = "Rejected ?e"
       and reload = "Rejected ?e"] a
  show ?thesis by (simp add: message_or_def)
qed

subsection \<open>The agent dock and failed submissions\<close>

lemma AgentDock_ask_rejected:
  "\<not> blank (msg st) \<Longrightarrow>
   out = Rejected e \<or> (\<exists>r. out = Responded r \<and> json r = Inl e) \<Longrightarrow>
   AgentDock_ask blank st out
     = st\<lparr>busy := False, showReason := False, resp := client_error_reply e\<rparr>"
  by (auto simp add: AgentDock_ask_def Let_def)

lemma AgentDock_ask_any_status:
  "\<not> blank (msg st) \<Longrightarrow> json r = Inr j \<Longrightarrow>
   AgentDock_ask blank st (Responded r) = st\<lparr>busy := False, showReason := False, resp := j\<rparr>"
  by (simp add: AgentDock_ask_def Let_def)

text \<open>
  Claim C6 at a failing submission: the backend answers 500 with a JSON error body. The
  dock stores the body as the reply, so it shows no reply text and no reasoning summary
  (both \<^verbatim>\<open>undefined\<close>) instead of the error's description and the client-side error
  marker; AgentAskRunbook, given the same response, reports ``500 Internal Server Error''.
\<close>

theorem agent_dock_shows_no_error_on_500:
  "\<not> ok \<lparr>status = 500, statusText = ''Internal Server Error'',
          json = Inr (JObj [(''detail'', JStr ''agent unavailable'')]),
          text_body = ''{\"detail\":\"agent unavailable\"}''\<rparr>
   \<and> AgentDock_ask (\<lambda>m. m = [])
       \<lparr>dock_open = True, msg = ''incidents last 2h'', busy = False, resp = JNull,
        showReason = False\<rparr>
       (Responded \<lparr>status = 500, statusText = ''Internal Server Error'',
          json = Inr (JObj [(''detail'', JStr ''agent unavailable'')]),
          text_body = ''{\"detail\":\"agent unavailable\"}''\<rparr>)
     = \<lparr>dock_open = True, msg = ''incidents last 2h'', busy = False,
        resp = JObj [(''detail'', JStr ''agent unavailable'')], showReason = False\<rparr>
   \<and> AgentDock_reply_text
       \<lparr>dock_open = True, msg = ''incidents last 2h'', busy = False,
        resp = JObj [(''detail'', JStr ''agent unavailable'')], showReason = False\<rparr> = JUndefined
   \<and> AgentDock_summary
       \<lparr>dock_open = True, msg = ''incidents last 2h'', busy = False,
        resp = JObj [(''detail'', JStr ''agent unavailable'')], showReason = False\<rparr> = JUndefined
   \<and> ask_err (AgentAskRunbook_ask \<lparr>ask_busy = False, ask_err = [], ask_reply = JNull\<rparr>
       (Responded \<lparr>status = 500, statusText = ''Internal Server Error'',
          json = Inr (JObj [(''detail'', JStr ''agent unavailable'')]),
          text_body = ''{\"detail\":\"agent unavailable\"}''\<rparr>))
     = ''500 Internal Server Error''"
proof -
  have n500: "show_nat 500 = ''500''"
    by code_simp
  show ?thesis
    by (simp add: ok_def AgentDock_ask_def AgentDock_reply_text_def AgentDock_summary_def
        AgentAskRunbook_ask_def fetchJSON_def status_error_def message_or_def n500)
qed

subsection \<open>The schema statements\<close>

lemma present_record_ddl: "present d (record_ddl d cat)"
  by (cases d) (simp_all add: name_taken_def)

lemma present_mono: "present d cat \<Longrightarrow> present d (record_ddl d' cat)"
  by (cases d; cases d') (auto simp add: name_taken_def)

lemma apply_ddl_guarded:
  assumes "guarded d"
  shows "\<exists>cat'. apply_ddl d cat = Inr cat' \<and> present d cat'
           \<and> (\<forall>d'. present d' cat \<longrightarrow> present d' cat')"
  using assms by (cases "present d cat") (auto simp add: apply_ddl_def present_record_ddl present_mono)

lemma apply_schema_guarded:
  assumes "list_all guarded ds"
  shows "\<exists>cat'. apply_schema ds cat = Inr cat'
           \<and> (\<forall>d. present d cat \<longrightarrow> present d cat') \<and> (\<forall>d\<in>set ds. present d cat')"
  using assms
proof (induction ds arbitrary: cat)
  case Nil
  then show ?case by simp
next
  case (Cons d ds)
  then have g: "guarded d" and gs: "list_all guarded ds" by simp_all
  from apply_ddl_guarded [OF g, of cat]
  obtain cat1 where 1: "apply_ddl d cat = Inr cat1" and 2: "present d cat1"
    and 3: "\<And>d'. present d' cat \<Longrightarrow> present d' cat1"
    by blast
  from Cons.IH [OF gs, of cat1] obtain cat' where 4: "apply_schema ds cat1 = Inr cat'"
    and 5: "\<forall>d. present d cat1 \<longrightarrow> present d cat'" and 6: "\<forall>d\<in>set ds. present d cat'"
    by blast
  show ?case using 1 2 3 4 5 6 by auto
qed

lemma apply_schema_present:
  assumes "list_all guarded ds" and "\<forall>d\<in>set ds. present d cat"
  shows "apply_schema ds cat = Inr cat"
  using assms by (induction ds) (simp_all add: apply_ddl_def)

lemma schema_guarded: "list_all guarded schema"
  by (simp add: schema_def)

text \<open>
  Claim C8. The schema has, for each of the 19 node labels of the data model, exactly one
  uniqueness constraint on \<^verbatim>\<open>id\<close>, and no other constraint; every statement carries
  \<^verbatim>\<open>IF NOT EXISTS\<close>; there is exactly one full-text index, \<^verbatim>\<open>entity_text\<close>, over the
  twelve labels Service, Machine, Line, Plant, Database, Sensor, API, Server, Topic,
  Incident, Alert, Team and the properties \<^verbatim>\<open>id\<close>, \<^verbatim>\<open>name\<close>, \<^verbatim>\<open>title\<close>. Applied to any
  catalog the schema succeeds, and applied again to the result it changes nothing.
\<close>

theorem schema_constraints_and_index:
  "(\<forall>l\<in>set spec_node_labels. length (filter (unique_id_constraint_on l) schema) = 1)
   \<and> length spec_node_labels = 19 \<and> distinct spec_node_labels
   \<and> length (filter is_constraint schema) = 19
   \<and> list_all guarded schema
   \<and> filter (\<lambda>d. \<not> is_constraint d) schema
       = [CreateFulltextIndex ''entity_text'' True
            [''Service'', ''Machine'', ''Line'', ''Plant'', ''Database'', ''Sensor'', ''API'',
             ''Server'', ''Topic'', ''Incident'', ''Alert'', ''Team'']
            [''id'', ''name'', ''title'']]
   \<and> (\<exists>cat'. apply_schema schema cat = Inr cat' \<and> apply_schema schema cat' = Inr cat')"
proof -
  have a: "\<forall>l\<in>set spec_node_labels. length (filter (unique_id_constraint_on l) schema) = 1"
    by (simp add: spec_node_labels_def schema_def)
  have b: "length spec_node_labels = 19 \<and> distinct spec_node_labels"
    by (simp add: spec_node_labels_def)
  have c: "length (filter is_constraint schema) = 19"
    by (simp add: schema_def)
  have d: "filter (\<lambda>d. \<not> is_constraint d) schema
       = [CreateFulltextIndex ''entity_text'' True
            [''Service'', ''Machine'', ''Line'', ''Plant'', ''Database'', ''Sensor'', ''API'',
             ''Server'', ''Topic'', ''Incident'', ''Alert'', ''Team'']
            [''id'', ''name'', ''title'']]"
    by (simp add: schema_def)
  from apply_schema_guarded [OF schema_guarded, of cat]
  obtain cat' where 1: "apply_schema schema cat = Inr cat'" and 2: "\<forall>d\<in>set schema. present d cat'"
    by blast
  from apply_schema_present [OF schema_guarded 2] 1
  have e: "\<exists>cat'. apply_schema schema cat = Inr cat' \<and> apply_schema schema cat' = Inr cat'"
    by blast
  from a b c d e schema_guarded show ?thesis by blast
qed

theorem schema_constraints_and_index_witness:
  "length (filter (unique_id_constraint_on ''Machine'') schema) = 1
   \<and> (\<exists>cat'. apply_schema schema \<lparr>constraints = [], indexes = []\<rparr> = Inr cat'
          \<and> apply_schema schema cat' = Inr cat')"
  using schema_constraints_and_index [of "\<lparr>constraints = [], indexes = []\<rparr>"]
  by (simp add: spec_node_labels_def)

subsection \<open>What a clause leaves alone\<close>

lemma filter_update_other:
  "filter (\<lambda>kv. fst kv \<noteq> k) (AList.update k v ps) = filter (\<lambda>kv. fst kv \<noteq> k) ps"
  by (induction ps) auto

lemma descriptive_set_props:
  assumes "sets = [] \<or> sets = [(''updated_at'', Datetime)]"
  shows "descriptive (n\<lparr>node_props := set_props now sets (node_props n)\<rparr>) = descriptive n"
  using assms by (auto simp add: descriptive_def filter_update_other)

lemma length_touch [simp]: "length (touch now sets ids ns) = length ns"
  by (simp add: touch_def)

lemma nth_touch:
  assumes "i < length ns"
  shows "touch now sets ids ns ! i
         = (if i \<in> set ids then (ns ! i)\<lparr>node_props := set_props now sets (node_props (ns ! i))\<rparr>
            else ns ! i)"
  using assms by (simp add: touch_def)

lemma descriptive_touch:
  assumes "sets = [] \<or> sets = [(''updated_at'', Datetime)]"
  shows "map descriptive (touch now sets ids ns) = map descriptive ns"
proof (rule nth_equalityI)
  show "length (map descriptive (touch now sets ids ns)) = length (map descriptive ns)"
    by simp
next
  fix i assume "i < length (map descriptive (touch now sets ids ns))"
  then have i: "i < length ns" by simp
  then show "map descriptive (touch now sets ids ns) ! i = map descriptive ns ! i"
    using descriptive_set_props [OF assms] by (simp add: nth_touch)
qed

lemma kept_refl: "kept g g"
  by (simp add: kept_def)

lemma kept_trans:
  assumes "kept g g'" and "kept g' g''"
  shows "kept g g''"
proof -
  from assms have le: "length (nodes g) \<le> length (nodes g')" "length (nodes g') \<le> length (nodes g'')"
    and 1: "map descriptive (take (length (nodes g)) (nodes g')) = map descriptive (nodes g)"
    and 2: "map descriptive (take (length (nodes g')) (nodes g'')) = map descriptive (nodes g')"
    by (simp_all add: kept_def)
  have "map descriptive (take (length (nodes g)) (nodes g''))
        = take (length (nodes g)) (map descriptive (take (length (nodes g')) (nodes g'')))"
    using le by (simp add: take_map min_def)
  also have "\<dots> = map descriptive (take (length (nodes g)) (nodes g'))"
    by (simp add: 2 take_map)
  finally show ?thesis using le 1 by (simp add: kept_def)
qed

lemma merge_node_kept:
  assumes "merge_node now v l pat on_create on_match g r = (g', out)"
    and "on_match = [] \<or> on_match = [(''updated_at'', Datetime)]"
  shows "kept g g'"
  using assms by (auto simp add: merge_node_def kept_def descriptive_touch split: list.splits)

lemma merge_rel_kept:
  assumes "merge_rel a t ps b g r = (g', out)"
  shows "kept g g'"
  using assms
  by (auto simp add: merge_rel_def endpoint_def kept_def split: list.splits option.splits)

lemma exec_row_kept:
  assumes "exec_row now c g r = (g', out)"
    and "on_match_of c = [] \<or> on_match_of c = [(''updated_at'', Datetime)]"
  shows "kept g g'"
proof (cases c)
  case (MergeNode v l pat on_create on_match)
  with assms show ?thesis by (auto intro: merge_node_kept)
next
  case (MergeRel a t ps b)
  with assms show ?thesis by (auto intro: merge_rel_kept)
qed

lemma exec_kept:
  assumes "exec now c (g, rs) = (g', out)"
    and "on_match_of c = [] \<or> on_match_of c = [(''updated_at'', Datetime)]"
  shows "kept g g'"
  using assms(1)
proof (induction rs arbitrary: g g' out)
  case Nil
  then show ?case by (simp add: kept_refl)
next
  case (Cons r rs)
  obtain g1 out1 where 1: "exec_row now c g r = (g1, out1)" by (cases "exec_row now c g r")
  obtain g2 out2 where 2: "exec now c (g1, rs) = (g2, out2)" by (cases "exec now c (g1, rs)")
  from Cons.prems 1 2 have "g' = g2" by simp
  moreover from 1 assms(2) have "kept g g1" by (rule exec_row_kept)
  moreover from 2 have "kept g1 g2" by (rule Cons.IH)
  ultimately show ?case by (auto intro: kept_trans)
qed

lemma run_clauses_kept:
  assumes "run_clauses now cs (g, rs) = (g', out)"
    and "\<forall>c\<in>set cs. on_match_of c = [] \<or> on_match_of c = [(''updated_at'', Datetime)]"
  shows "kept g g'"
  using assms
proof (induction cs arbitrary: g rs)
  case Nil
  then show ?case by (simp add: kept_refl)
next
  case (Cons c cs)
  obtain g1 rs1 where 1: "exec now c (g, rs) = (g1, rs1)" by (cases "exec now c (g, rs)")
  with Cons.prems(1) have 2: "run_clauses now cs (g1, rs1) = (g', out)" by simp
  from 1 Cons.prems(2) have "kept g g1" by (auto intro: exec_kept)
  moreover from Cons.IH [OF 2] Cons.prems(2) have "kept g1 g'" by simp
  ultimately show ?case by (rule kept_trans)
qed

lemma run_statement_kept:
  assumes "run_statement now cs g = Inr g'"
    and "\<forall>c\<in>set cs. on_match_of c = [] \<or> on_match_of c = [(''updated_at'', Datetime)]"
  shows "kept g g'"
proof -
  obtain g1 out where 1: "run_clauses now cs (g, [[]]) = (g1, out)"
    by (cases "run_clauses now cs (g, [[]])")
  with assms(1) have "g' = g1"
    by (auto simp add: run_statement_def split: option.splits)
  with run_clauses_kept [OF 1 assms(2)] show ?thesis by simp
qed

lemma run_statements_kept:
  assumes "run_statements clock k ss g = Inr g'"
    and "\<forall>s\<in>set ss. \<forall>c\<in>set s. on_match_of c = [] \<or> on_match_of c = [(''updated_at'', Datetime)]"
  shows "kept g g'"
  using assms
proof (induction ss arbitrary: k g)
  case Nil
  then show ?case by (simp add: kept_refl)
next
  case (Cons s ss)
  from Cons.prems(1) obtain g1 where 1: "run_statement (clock k) s g = Inr g1"
    and 2: "run_statements clock (Suc k) ss g1 = Inr g'"
    by (auto split: sum.splits)
  from 1 Cons.prems(2) have "kept g g1" by (auto intro: run_statement_kept)
  moreover from Cons.IH [OF 2] Cons.prems(2) have "kept g1 g'" by simp
  ultimately show ?case by (rule kept_trans)
qed

lemma load_kept:
  assumes "load policy clock k ss g = (g', es)"
    and "\<forall>s\<in>set ss. \<forall>c\<in>set s. on_match_of c = [] \<or> on_match_of c = [(''updated_at'', Datetime)]"
  shows "kept g g'"
  using assms
proof (induction ss arbitrary: k g g' es)
  case Nil
  then show ?case by (simp add: kept_refl)
next
  case (Cons s ss)
  show ?case
  proof (cases "run_statement (clock k) s g")
    case (Inr g1)
    with Cons.prems(1) have 2: "load policy clock (Suc k) ss g1 = (g', es)" by simp
    from Inr Cons.prems(2) have "kept g g1" by (auto intro: run_statement_kept)
    moreover from Cons.IH [OF 2] Cons.prems(2) have "kept g1 g'" by simp
    ultimately show ?thesis by (rule kept_trans)
  next
    case (Inl e)
    show ?thesis
    proof (cases policy)
      case Stop
      with Inl Cons.prems(1) show ?thesis by (simp add: kept_refl)
    next
      case Continue
      obtain g2 es2 where 2: "load policy clock (Suc k) ss g = (g2, es2)"
        by (cases "load policy clock (Suc k) ss g")
      with Inl Continue Cons.prems(1) have "g' = g2" by simp
      moreover from Cons.IH [OF 2] Cons.prems(2) have "kept g g2" by simp
      ultimately show ?thesis by simp
    qed
  qed
qed

lemma seed_on_match: "\<forall>c\<in>set seed. on_match_of c = [] \<or> on_match_of c = [(''updated_at'', Datetime)]"
  by (simp add: seed_def seed_nodes_def relationships_statement_def relationships_rest_def
      seed_incidents_def incidents_file_def seed_runbooks_def runbooks_file_def seed_services_def)

lemma concat_seed_script: "concat seed_script = seed"
  by (simp add: seed_script_def seed_def nodes_file_def seed_incidents_def seed_runbooks_def
      concat_map_singleton)

lemma seed_loader_kept:
  assumes "seed_loader policy clock g = (g', es)"
  shows "kept g g'"
proof -
  have "set seed = \<Union> (set ` set seed_script)"
    by (simp only: concat_seed_script [symmetric] set_concat)
  then have "\<forall>s\<in>set seed_script. \<forall>c\<in>set s. c \<in> set seed"
    by blast
  with seed_on_match
  have "\<forall>s\<in>set seed_script. \<forall>c\<in>set s. on_match_of c = [] \<or> on_match_of c = [(''updated_at'', Datetime)]"
    by blast
  with assms show ?thesis
    unfolding seed_loader_def by (rule load_kept)
qed

subsection \<open>Upserts by id\<close>

lemma node_matches_id: "node_matches l [(''id'', PStr i)] = has_id l i"
  by (simp add: fun_eq_iff node_matches_def has_props_def has_id_def)

lemma matching_nodes_empty:
  "matching_nodes g l pat = [] \<longleftrightarrow> filter (node_matches l pat) (nodes g) = []"
  by (auto simp add: matching_nodes_def filter_empty_conv all_set_conv_all_nth)

lemma map_of_set_props_other:
  assumes "k \<notin> set (map fst sets)"
  shows "map_of (set_props now sets ps) k = map_of ps k"
  using assms by (induction sets arbitrary: ps) (auto simp add: update_conv')

lemma has_id_set_props:
  assumes "sets = [] \<or> sets = [(''updated_at'', Datetime)]"
  shows "has_id l i (n\<lparr>node_props := set_props now sets (node_props n)\<rparr>) = has_id l i n"
  using assms by (auto simp add: has_id_def update_conv')

lemma length_filter_cong_map:
  assumes "map P xs = map P ys"
  shows "length (filter P xs) = length (filter P ys)"
proof -
  have *: "length (filter P zs) = length (filter (\<lambda>b. b) (map P zs))" for zs
    by (induction zs) simp_all
  have "length (filter P xs) = length (filter (\<lambda>b. b) (map P xs))"
    by (rule *)
  also have "\<dots> = length (filter (\<lambda>b. b) (map P ys))"
    by (simp only: assms)
  also have "\<dots> = length (filter P ys)"
    by (rule * [symmetric])
  finally show ?thesis .
qed

lemma count_touch:
  assumes "sets = [] \<or> sets = [(''updated_at'', Datetime)]"
  shows "length (filter (has_id l i) (touch now sets ids ns)) = length (filter (has_id l i) ns)"
proof (rule length_filter_cong_map, rule nth_equalityI)
  show "length (map (has_id l i) (touch now sets ids ns)) = length (map (has_id l i) ns)"
    by simp
next
  fix j assume "j < length (map (has_id l i) (touch now sets ids ns))"
  then have "j < length ns" by simp
  then show "map (has_id l i) (touch now sets ids ns) ! j = map (has_id l i) ns ! j"
    using has_id_set_props [OF assms] by (simp add: nth_touch)
qed

lemma run_statement_single:
  "run_statement now [MergeNode v l pat on_create on_match] g
     = Inr (fst (merge_node now v l pat on_create on_match g []))"
  by (simp add: run_statement_def split: prod.splits)

lemma statement_upsert:
  assumes "upsert_by_id c"
  shows "\<exists>l i g'. declared_ids (c # cs) = (l, i) # declared_ids cs
           \<and> run_statement now [c] g = Inr g' \<and> rels g' = rels g \<and> kept g g'
           \<and> (\<forall>l' i'. count_id g' l' i'
                 = (if count_id g l i = 0 \<and> l' = l \<and> i' = i then 1 else count_id g l' i'))
           \<and> (0 < count_id g l i \<longrightarrow> length (nodes g') = length (nodes g))"
proof (cases c)
  case (MergeRel a t ps b)
  with assms show ?thesis by simp
next
  case (MergeNode v l pat on_create on_match)
  with assms obtain i where pat: "pat = [(''id'', PStr i)]"
    and oc: "''id'' \<notin> set (map fst on_create)"
    and om: "on_match = [] \<or> on_match = [(''updated_at'', Datetime)]"
    by (auto split: list.splits pval.splits prod.splits)
  have decl: "declared_ids (c # cs) = (l, i) # declared_ids cs"
    by (simp add: MergeNode pat)
  show ?thesis
  proof (cases "matching_nodes g l pat")
    case Nil
    then have none: "filter (has_id l i) (nodes g) = []"
      by (simp add: matching_nodes_empty pat node_matches_id)
    let ?n = "\<lparr>node_labels = [l], node_props = set_props now on_create pat\<rparr>"
    let ?g = "g\<lparr>nodes := nodes g @ [?n]\<rparr>"
    have new: "has_id l' i' ?n \<longleftrightarrow> l' = l \<and> i' = i" for l' i'
      by (auto simp add: has_id_def map_of_set_props_other [OF oc] pat)
    have ex: "run_statement now [c] g = Inr ?g"
      by (simp add: MergeNode run_statement_single merge_node_def Nil)
    have cnt: "count_id ?g l' i'
                 = (if count_id g l i = 0 \<and> l' = l \<and> i' = i then 1 else count_id g l' i')" for l' i'
      using none by (simp add: count_id_def new)
    have "kept g ?g"
      by (simp add: kept_def)
    with decl ex cnt none show ?thesis
      by (auto simp add: count_id_def)
  next
    case (Cons j js)
    then have some: "0 < count_id g l i"
      using matching_nodes_empty [of g l pat] by (simp add: count_id_def pat node_matches_id)
    let ?g = "g\<lparr>nodes := touch now on_match (j # js) (nodes g)\<rparr>"
    have ex: "run_statement now [c] g = Inr ?g"
      by (simp add: MergeNode run_statement_single merge_node_def Cons)
    have cnt: "count_id ?g l' i' = count_id g l' i'" for l' i'
      by (simp add: count_id_def count_touch [OF om])
    have "kept g ?g"
      by (simp add: kept_def descriptive_touch [OF om])
    with decl ex cnt some show ?thesis
      by auto
  qed
qed

lemma run_statements_upserts:
  assumes "list_all upsert_by_id cs"
  shows "\<exists>g'. run_statements clock k (map (\<lambda>c. [c]) cs) g = Inr g'
           \<and> rels g' = rels g \<and> kept g g'
           \<and> (\<forall>l i. count_id g' l i
                 = (if count_id g l i = 0 \<and> (l, i) \<in> set (declared_ids cs) then 1
                    else count_id g l i))
           \<and> ((\<forall>(l, i)\<in>set (declared_ids cs). 0 < count_id g l i)
                \<longrightarrow> length (nodes g') = length (nodes g))"
  using assms
proof (induction cs arbitrary: k g)
  case Nil
  then show ?case by (simp add: kept_refl)
next
  case (Cons c cs)
  then have c: "upsert_by_id c" and cs: "list_all upsert_by_id cs" by simp_all
  from statement_upsert [OF c, of cs "clock k" g]
  obtain l i g1 where decl: "declared_ids (c # cs) = (l, i) # declared_ids cs"
    and st: "run_statement (clock k) [c] g = Inr g1"
    and rels1: "rels g1 = rels g" and kept1: "kept g g1"
    and cnt1: "\<forall>l' i'. count_id g1 l' i'
                 = (if count_id g l i = 0 \<and> l' = l \<and> i' = i then 1 else count_id g l' i')"
    and len1: "0 < count_id g l i \<longrightarrow> length (nodes g1) = length (nodes g)"
    by (elim exE conjE) (rule that; assumption)
  from Cons.IH [OF cs, of "Suc k" g1]
  obtain g' where run: "run_statements clock (Suc k) (map (\<lambda>c. [c]) cs) g1 = Inr g'"
    and rels': "rels g' = rels g1" and kept': "kept g1 g'"
    and cnt': "\<forall>l' i'. count_id g' l' i'
                 = (if count_id g1 l' i' = 0 \<and> (l', i') \<in> set (declared_ids cs) then 1
                    else count_id g1 l' i')"
    and len': "(\<forall>(l, i)\<in>set (declared_ids cs). 0 < count_id g1 l i)
                \<longrightarrow> length (nodes g') = length (nodes g1)"
    by (elim exE conjE) (rule that; assumption)
  have 1: "run_statements clock k (map (\<lambda>c. [c]) (c # cs)) g = Inr g'"
    by (simp add: st run)
  have 2: "rels g' = rels g"
    by (simp add: rels' rels1)
  have 3: "kept g g'"
    using kept1 kept' by (rule kept_trans)
  have 4: "count_id g' l' i'
             = (if count_id g l' i' = 0 \<and> (l', i') \<in> set (declared_ids (c # cs)) then 1
                else count_id g l' i')" for l' i'
    by (auto simp add: cnt' cnt1 decl)
  have 5: "length (nodes g') = length (nodes g)"
    if all: "\<forall>(l, i)\<in>set (declared_ids (c # cs)). 0 < count_id g l i"
  proof -
    from all have here: "0 < count_id g l i" by (simp add: decl)
    with len1 have a: "length (nodes g1) = length (nodes g)" by simp
    from here have same: "count_id g1 l' i' = count_id g l' i'" for l' i'
      by (simp add: cnt1)
    from all have "\<forall>(l, i)\<in>set (declared_ids cs). 0 < count_id g1 l i"
      by (auto simp add: decl same)
    with len' a show ?thesis by simp
  qed
  from 1 2 3 4 5 show ?case by blast
qed

lemma seed_nodes_upserts: "list_all upsert_by_id seed_nodes"
  by (simp add: seed_nodes_def)

lemma load_nodes_upserts:
  "\<exists>g'. load_nodes clock g = Inr g'
           \<and> rels g' = rels g \<and> kept g g'
           \<and> (\<forall>l i. count_id g' l i
                 = (if count_id g l i = 0 \<and> (l, i) \<in> set (declared_ids seed_nodes) then 1
                    else count_id g l i))
           \<and> ((\<forall>(l, i)\<in>set (declared_ids seed_nodes). 0 < count_id g l i)
                \<longrightarrow> length (nodes g') = length (nodes g))"
  unfolding load_nodes_def nodes_file_def
  by (rule run_statements_upserts [OF seed_nodes_upserts])

text \<open>
  The node statements (lines 44 to 97) on their own, from any graph that holds at most
  one node for each label and id they declare (what the uniqueness constraints
  guarantee): running them and then running them again succeeds both times; after either
  run each of these labels and ids has exactly one node; the second run adds no node,
  changes no relationship and leaves the labels and every property but \<^verbatim>\<open>updated_at\<close>
  of every node as they were after the first.
\<close>

lemma node_statements_rerun:
  assumes unique: "\<forall>(l, i)\<in>set (declared_ids seed_nodes). count_id g0 l i \<le> 1"
  shows "\<exists>g1 g2. load_nodes c1 g0 = Inr g1 \<and> load_nodes c2 g1 = Inr g2
         \<and> (\<forall>(l, i)\<in>set (declared_ids seed_nodes). count_id g1 l i = 1 \<and> count_id g2 l i = 1)
         \<and> length (nodes g2) = length (nodes g1)
         \<and> map descriptive (nodes g2) = map descriptive (nodes g1)
         \<and> rels g2 = rels g1"
proof -
  from load_nodes_upserts [of c1 g0]
  obtain g1 where 1: "load_nodes c1 g0 = Inr g1"
    and "rels g1 = rels g0" and "kept g0 g1"
    and cnt1: "\<forall>l i. count_id g1 l i
                 = (if count_id g0 l i = 0 \<and> (l, i) \<in> set (declared_ids seed_nodes) then 1
                    else count_id g0 l i)"
    and "(\<forall>(l, i)\<in>set (declared_ids seed_nodes). 0 < count_id g0 l i)
                \<longrightarrow> length (nodes g1) = length (nodes g0)"
    by (elim exE conjE) (rule that; assumption)
  have one1: "\<forall>(l, i)\<in>set (declared_ids seed_nodes). count_id g1 l i = 1"
  proof (clarify)
    fix l i assume d: "(l, i) \<in> set (declared_ids seed_nodes)"
    with unique have "count_id g0 l i \<le> 1" by auto
    with d show "count_id g1 l i = 1" by (auto simp add: cnt1)
  qed
  from load_nodes_upserts [of c2 g1]
  obtain g2 where 2: "load_nodes c2 g1 = Inr g2"
    and rels2: "rels g2 = rels g1" and kept2: "kept g1 g2"
    and cnt2: "\<forall>l i. count_id g2 l i
                 = (if count_id g1 l i = 0 \<and> (l, i) \<in> set (declared_ids seed_nodes) then 1
                    else count_id g1 l i)"
    and len2: "(\<forall>(l, i)\<in>set (declared_ids seed_nodes). 0 < count_id g1 l i)
                \<longrightarrow> length (nodes g2) = length (nodes g1)"
    by (elim exE conjE) (rule that; assumption)
  from one1 len2 have len: "length (nodes g2) = length (nodes g1)" by auto
  from one1 have one2: "\<forall>(l, i)\<in>set (declared_ids seed_nodes). count_id g2 l i = 1"
    by (auto simp add: cnt2)
  from kept2 len have same: "map descriptive (nodes g2) = map descriptive (nodes g1)"
    by (simp add: kept_def)
  from 1 2 one1 one2 len same rels2 show ?thesis
    by auto
qed

subsection \<open>Running the whole seed twice\<close>

text \<open>
  Claim C3, on the seed as the engine takes it. The seed loader is run on the empty graph
  and then again on the graph this gives, in both ways a loader may treat a rejected
  statement. Every \<^verbatim>\<open>ON MATCH\<close> branch of the seed sets \<^verbatim>\<open>updated_at\<close> to \<^verbatim>\<open>datetime()\<close>
  and nothing else. In either run the statement of lines 99 to 142 is rejected, and it is
  the only one. When the loader goes on after it: the second run adds no node and no
  relationship and leaves the labels and every property but \<^verbatim>\<open>updated_at\<close> of every
  node as they were; no node has an \<^verbatim>\<open>updated_at\<close> after the first run and every node
  with a \<^verbatim>\<open>created_at\<close> has one after the second (for \<^verbatim>\<open>M-42\<close>: \<^verbatim>\<open>created_at\<close> is the time
  of its statement in the first run, \<^verbatim>\<open>updated_at\<close> that in the second); every label and
  id the seed declares has exactly one node, except the Service \<^verbatim>\<open>billing-service\<close>,
  which line 140 declares inside the rejected statement: it has none, after the first
  run and after the second. When the loader stops at the rejected statement, the second
  run again changes nothing but \<^verbatim>\<open>updated_at\<close>, the thirteen ids of lines 44 to 97 have
  one node each, and none of the twelve ids declared only after line 97 has a node.
\<close>

theorem seed_rerun_leaves_ids_without_node:
  "list_all (\<lambda>c. on_match_of c = [] \<or> on_match_of c = [(''updated_at'', Datetime)]) seed
   \<and> (case seed_loader Continue c1 empty_graph of (g1, es1) \<Rightarrow>
        (case seed_loader Continue c2 g1 of (g2, es2) \<Rightarrow>
           es1 = [AlreadyDeclared ''plant''] \<and> es2 = [AlreadyDeclared ''plant'']
         \<and> filter (\<lambda>(l, i). count_id g1 l i \<noteq> 1) (declared_ids seed)
             = [(''Service'', ''billing-service'')]
         \<and> filter (\<lambda>(l, i). count_id g2 l i \<noteq> 1) (declared_ids seed)
             = [(''Service'', ''billing-service'')]
         \<and> count_id g1 ''Service'' ''billing-service'' = 0
         \<and> count_id g2 ''Service'' ''billing-service'' = 0
         \<and> length (nodes g2) = length (nodes g1)
         \<and> map descriptive (nodes g2) = map descriptive (nodes g1)
         \<and> rels g2 = rels g1
         \<and> list_all (\<lambda>n. map_of (node_props n) ''updated_at'' = None) (nodes g1)
         \<and> filter (\<lambda>n. map_of (node_props n) ''created_at'' \<noteq> None
                         \<and> map_of (node_props n) ''updated_at'' = None) (nodes g2) = []
         \<and> map_of (node_props (nodes g2 ! 3)) ''id'' = Some (PStr ''M-42'')
         \<and> map_of (node_props (nodes g2 ! 3)) ''created_at'' = Some (PTime (c1 3))
         \<and> map_of (node_props (nodes g2 ! 3)) ''updated_at'' = Some (PTime (c2 3))))
   \<and> (case seed_loader Stop c1 empty_graph of (g1, es1) \<Rightarrow>
        (case seed_loader Stop c2 g1 of (g2, es2) \<Rightarrow>
           es1 = [AlreadyDeclared ''plant''] \<and> es2 = [AlreadyDeclared ''plant'']
         \<and> filter (\<lambda>(l, i). count_id g2 l i = 1) (declared_ids seed_nodes)
             = declared_ids seed_nodes
         \<and> remdups (filter (\<lambda>(l, i). count_id g2 l i \<noteq> 1) (declared_ids seed))
             = [(''Service'', ''billing-service''), (''Alert'', ''ALERT-5002''),
                (''Ticket'', ''TIC-9001''), (''Runbook'', ''RB-restore-pump''),
                (''AlertType'', ''vibration-high''), (''AgentAction'', ''ACT-7001''),
                (''Incident'', ''INC-1001''), (''Alert'', ''ALERT-5001''),
                (''User'', ''lead-1''), (''Server'', ''srv-1''),
                (''Team'', ''team-checkout''), (''Topic'', ''orders.events'')]
         \<and> list_all (\<lambda>(l, i). count_id g2 l i = 0)
              (filter (\<lambda>(l, i). count_id g2 l i \<noteq> 1) (declared_ids seed))
         \<and> length (nodes g2) = length (nodes g1)
         \<and> map descriptive (nodes g2) = map descriptive (nodes g1)
         \<and> rels g2 = rels g1))"
proof (intro conjI)
  show "list_all (\<lambda>c. on_match_of c = [] \<or> on_match_of c = [(''updated_at'', Datetime)]) seed"
    by code_simp
  show "(case seed_loader Continue c1 empty_graph of (g1, es1) \<Rightarrow>
        (case seed_loader Continue c2 g1 of (g2, es2) \<Rightarrow>
           es1 = [AlreadyDeclared ''plant''] \<and> es2 = [AlreadyDeclared ''plant'']
         \<and> filter (\<lambda>(l, i). count_id g1 l i \<noteq> 1) (declared_ids seed)
             = [(''Service'', ''billing-service'')]
         \<and> filter (\<lambda>(l, i). count_id g2 l i \<noteq> 1) (declared_ids seed)
             = [(''Service'', ''billing-service'')]
         \<and> count_id g1 ''Service'' ''billing-service'' = 0
         \<and> count_id g2 ''Service'' ''billing-service'' = 0
         \<and> length (nodes g2) = length (nodes g1)
         \<and> map descriptive (nodes g2) = map descriptive (nodes g1)
         \<and> rels g2 = rels g1
         \<and> list_all (\<lambda>n. map_of (node_props n) ''updated_at'' = None) (nodes g1)
         \<and> filter (\<lambda>n. map_of (node_props n) ''created_at'' \<noteq> None
                         \<and> map_of (node_props n) ''updated_at'' = None) (nodes g2) = []
         \<and> map_of (node_props (nodes g2 ! 3)) ''id'' = Some (PStr ''M-42'')
         \<and> map_of (node_props (nodes g2 ! 3)) ''created_at'' = Some (PTime (c1 3))
         \<and> map_of (node_props (nodes g2 ! 3)) ''updated_at'' = Some (PTime (c2 3))))"
    by code_simp
  show "(case seed_loader Stop c1 empty_graph of (g1, es1) \<Rightarrow>
        (case seed_loader Stop c2 g1 of (g2, es2) \<Rightarrow>
           es1 = [AlreadyDeclared ''plant''] \<and> es2 = [AlreadyDeclared ''plant'']
         \<and> filter (\<lambda>(l, i). count_id g2 l i = 1) (declared_ids seed_nodes)
             = declared_ids seed_nodes
         \<and> remdups (filter (\<lambda>(l, i). count_id g2 l i \<noteq> 1) (declared_ids seed))
             = [(''Service'', ''billing-service''), (''Alert'', ''ALERT-5002''),
                (''Ticket'', ''TIC-9001''), (''Runbook'', ''RB-restore-pump''),
                (''AlertType'', ''vibration-high''), (''AgentAction'', ''ACT-7001''),
                (''Incident'', ''INC-1001''), (''Alert'', ''ALERT-5001''),
                (''User'', ''lead-1''), (''Server'', ''srv-1''),
                (''Team'', ''team-checkout''), (''Topic'', ''orders.events'')]
         \<and> list_all (\<lambda>(l, i). count_id g2 l i = 0)
              (filter (\<lambda>(l, i). count_id g2 l i \<noteq> 1) (declared_ids seed))
         \<and> length (nodes g2) = length (nodes g1)
         \<and> map descriptive (nodes g2) = map descriptive (nodes g1)
         \<and> rels g2 = rels g1))"
    by code_simp
qed

subsection \<open>The containment path\<close>

text \<open>
  Under the reading in which every clause is run as it stands, the seed does build the
  path from the site to the machine.
\<close>

lemma seed_each_clause_path:
  "(case seed_each_clause clock empty_graph of (g, rs) \<Rightarrow>
        3 < length (nodes g)
      \<and> node_labels (nodes g ! 0) = [''Site'']
      \<and> map_of (node_props (nodes g ! 0)) ''id'' = Some (PStr ''Site-1'')
      \<and> node_labels (nodes g ! 1) = [''Plant'']
      \<and> node_labels (nodes g ! 2) = [''Line'']
      \<and> node_labels (nodes g ! 3) = [''Machine'']
      \<and> map_of (node_props (nodes g ! 3)) ''id'' = Some (PStr ''M-42'')
      \<and> map_of (node_props (nodes g ! 3)) ''criticality'' = Some (PStr ''high'')
      \<and> edge g 0 ''HAS_PLANT'' 1 \<and> edge g 1 ''HAS_LINE'' 2 \<and> edge g 2 ''HAS_MACHINE'' 3)"
  by code_simp

lemma each_clause_reading_reaches_M42:
  "\<exists>g rs site plant line m. seed_each_clause clock empty_graph = (g, rs)
     \<and> m < length (nodes g)
     \<and> has_id ''Machine'' ''M-42'' (nodes g ! m)
     \<and> map_of (node_props (nodes g ! m)) ''criticality'' = Some (PStr ''high'')
     \<and> has_id ''Site'' ''Site-1'' (nodes g ! site)
     \<and> edge g site ''HAS_PLANT'' plant \<and> edge g plant ''HAS_LINE'' line
     \<and> edge g line ''HAS_MACHINE'' m"
proof -
  from seed_each_clause_path [of clock] obtain g rs where
    body: "seed_each_clause clock empty_graph = (g, rs)
     \<and> 3 < length (nodes g)
     \<and> has_id ''Machine'' ''M-42'' (nodes g ! 3)
     \<and> map_of (node_props (nodes g ! 3)) ''criticality'' = Some (PStr ''high'')
     \<and> has_id ''Site'' ''Site-1'' (nodes g ! 0)
     \<and> edge g 0 ''HAS_PLANT'' 1 \<and> edge g 1 ''HAS_LINE'' 2
     \<and> edge g 2 ''HAS_MACHINE'' 3"
    by (auto simp add: has_id_def split: prod.splits)
  show ?thesis
    by (intro exI) (rule body)
qed

text \<open>
  Claim C9 on the seed as the engine takes it. The node statements run: from the empty
  graph they give a graph whose fourth node is the Machine \<^verbatim>\<open>M-42\<close> with criticality
  ``high'', and no relationship. The statement of lines 99 to 142, which holds the three
  containment patterns, declares \<^verbatim>\<open>plant\<close> in line 100 and again in line 104: it is
  rejected, whatever the graph, and running the files stops there. No clause outside
  this statement has type HAS_PLANT, HAS_LINE or HAS_MACHINE. So the path from
  \<^verbatim>\<open>Site-1\<close> to \<^verbatim>\<open>M-42\<close> is never made.
\<close>

theorem containment_statement_rejected:
  "redeclared [] relationships_statement = Some ''plant''
   \<and> run_statement now relationships_statement g = Inl (AlreadyDeclared ''plant'')
   \<and> run_statements clock 0 (nodes_file @ [relationships_statement, relationships_rest]) empty_graph
       = Inl (AlreadyDeclared ''plant'')
   \<and> (case load_nodes clock empty_graph of
         Inl e \<Rightarrow> False
       | Inr g' \<Rightarrow>
           rels g' = [] \<and> 3 < length (nodes g')
         \<and> node_labels (nodes g' ! 3) = [''Machine'']
         \<and> map_of (node_props (nodes g' ! 3)) ''id'' = Some (PStr ''M-42'')
         \<and> map_of (node_props (nodes g' ! 3)) ''criticality'' = Some (PStr ''high''))
   \<and> filter (\<lambda>t. t \<in> set [''HAS_PLANT'', ''HAS_LINE'', ''HAS_MACHINE''])
         (rel_types (seed_nodes @ relationships_rest @ seed_incidents @ seed_runbooks
            @ seed_services)) = []"
proof -
  have a: "redeclared [] relationships_statement = Some ''plant''"
    by (simp add: relationships_statement_def)
  then have b: "run_statement now relationships_statement g = Inl (AlreadyDeclared ''plant'')"
    by (simp add: run_statement_def)
  have c: "run_statements clock 0 (nodes_file @ [relationships_statement, relationships_rest])
             empty_graph = Inl (AlreadyDeclared ''plant'')"
    by code_simp
  have d: "(case load_nodes clock empty_graph of
         Inl e \<Rightarrow> False
       | Inr g' \<Rightarrow>
           rels g' = [] \<and> 3 < length (nodes g')
         \<and> node_labels (nodes g' ! 3) = [''Machine'']
         \<and> map_of (node_props (nodes g' ! 3)) ''id'' = Some (PStr ''M-42'')
         \<and> map_of (node_props (nodes g' ! 3)) ''criticality'' = Some (PStr ''high''))"
    by code_simp
  have e: "filter (\<lambda>t. t \<in> set [''HAS_PLANT'', ''HAS_LINE'', ''HAS_MACHINE''])
         (rel_types (seed_nodes @ relationships_rest @ seed_incidents @ seed_runbooks
            @ seed_services)) = []"
    by code_simp
  from a b c d e show ?thesis by simp
qed

end
